theory Spec2Isabelle
  imports Main "HOL-Library.Word"
begin

unbundle bit_operations_syntax

section \<open>Values of the host language\<close>

text \<open>
  The sources are TypeScript. A JavaScript string is modelled as a HOL \<open>string\<close>, whose
  characters are read as the code points U+0000 to U+00FF. A Node \<open>Buffer\<close> is a list of
  bytes. Numbers that the code treats as integers (Unix times, page numbers, retry counts,
  delays in milliseconds, HTTP status codes) are \<open>int\<close>: the double-precision arithmetic
  of the host is exact on them below \<open>2 ^ 53\<close>.
\<close>

type_synonym byte = "8 word"
type_synonym word32 = "32 word"

text \<open>
  \<open>Error\<close> objects. \<open>Error msg sc\<close> is \<open>new Error(msg)\<close> with the property \<open>statusCode\<close>
  set to \<open>sc\<close> when \<open>sc\<close> is not \<open>None\<close>, as the response interceptor of the API client
  builds it; \<open>TypeError\<close> and \<open>RangeError\<close> are the errors of the runtime.
\<close>

datatype error = TypeError string | RangeError string | Error string "int option"

fun statusCode :: "error \<Rightarrow> int option" where
  "statusCode (Error msg sc) = sc"
| "statusCode (TypeError msg) = None"
| "statusCode (RangeError msg) = None"

subsection \<open>\<open>Buffer.from(string)\<close>: the UTF-8 encoding\<close>

definition utf8_char :: "char \<Rightarrow> byte list" where
  "utf8_char c =
     (let n = (of_char c :: nat)
      in if n < 128 then [of_nat n] else [of_nat (192 + n div 64), of_nat (128 + n mod 64)])"

definition Buffer_from :: "string \<Rightarrow> byte list" where
  "Buffer_from s = concat (map utf8_char s)"

subsection \<open>\<open>crypto.createHmac('sha256', key).update(msg).digest('hex')\<close>\<close>

text \<open>
  The digest is the one of the \<open>crypto\<close> module of Node: HMAC (RFC 2104) over SHA-256
  (FIPS 180-4), printed as lowercase hexadecimal.
\<close>

definition K256 :: "word32 list" where
  "K256 = map of_nat
    [1116352408, 1899447441, 3049323471, 3921009573, 961987163, 1508970993,
     2453635748, 2870763221, 3624381080, 310598401, 607225278, 1426881987,
     1925078388, 2162078206, 2614888103, 3248222580, 3835390401, 4022224774,
     264347078, 604807628, 770255983, 1249150122, 1555081692, 1996064986,
     2554220882, 2821834349, 2952996808, 3210313671, 3336571891, 3584528711,
     113926993, 338241895, 666307205, 773529912, 1294757372, 1396182291,
     1695183700, 1986661051, 2177026350, 2456956037, 2730485921, 2820302411,
     3259730800, 3345764771, 3516065817, 3600352804, 4094571909, 275423344,
     430227734, 506948616, 659060556, 883997877, 958139571, 1322822218,
     1537002063, 1747873779, 1955562222, 2024104815, 2227730452, 2361852424,
     2428436474, 2756734187, 3204031479, 3329325298 :: nat]"

type_synonym hstate = "word32 \<times> word32 \<times> word32 \<times> word32 \<times> word32 \<times> word32 \<times> word32 \<times> word32"

definition H256 :: hstate where
  "H256 = (1779033703, 3144134277, 1013904242, 2773480762,
           1359893119, 2600822924, 528734635, 1541459225)"

definition rotr :: "nat \<Rightarrow> word32 \<Rightarrow> word32" where
  "rotr n x = drop_bit n x OR push_bit (32 - n) x"

definition ch :: "word32 \<Rightarrow> word32 \<Rightarrow> word32 \<Rightarrow> word32" where
  "ch x y z = (x AND y) XOR (NOT x AND z)"

definition maj :: "word32 \<Rightarrow> word32 \<Rightarrow> word32 \<Rightarrow> word32" where
  "maj x y z = (x AND y) XOR (x AND z) XOR (y AND z)"

definition bsig0 :: "word32 \<Rightarrow> word32" where
  "bsig0 x = rotr 2 x XOR rotr 13 x XOR rotr 22 x"

definition bsig1 :: "word32 \<Rightarrow> word32" where
  "bsig1 x = rotr 6 x XOR rotr 11 x XOR rotr 25 x"

definition ssig0 :: "word32 \<Rightarrow> word32" where
  "ssig0 x = rotr 7 x XOR rotr 18 x XOR drop_bit 3 x"

definition ssig1 :: "word32 \<Rightarrow> word32" where
  "ssig1 x = rotr 17 x XOR rotr 19 x XOR drop_bit 10 x"

fun be32 :: "byte list \<Rightarrow> word32 list" where
  "be32 (a # b # c # d # r) =
     (push_bit 24 (ucast a) OR push_bit 16 (ucast b) OR push_bit 8 (ucast c) OR ucast d) # be32 r"
| "be32 _ = []"

definition bytes_of32 :: "word32 \<Rightarrow> byte list" where
  "bytes_of32 w = [ucast (drop_bit 24 w), ucast (drop_bit 16 w), ucast (drop_bit 8 w), ucast w]"

definition be64 :: "nat \<Rightarrow> byte list" where
  "be64 n = (let w = (of_nat n :: 64 word) in map (\<lambda>i. ucast (drop_bit (56 - 8 * i) w)) [0 ..< 8])"

definition sha_pad :: "byte list \<Rightarrow> byte list" where
  "sha_pad m =
     m @ [128] @ replicate ((119 - length m mod 64) mod 64) 0 @ be64 (8 * length m)"

fun extend :: "nat \<Rightarrow> word32 list \<Rightarrow> word32 list" where
  "extend 0 w = w"
| "extend (Suc n) w =
     (let l = length w
      in extend n (w @ [ssig1 (w ! (l - 2)) + w ! (l - 7) + ssig0 (w ! (l - 15)) + w ! (l - 16)]))"

fun sha_round :: "hstate \<Rightarrow> word32 \<times> word32 \<Rightarrow> hstate" where
  "sha_round (a, b, c, d, e, f, g, h) (k, w) =
     (let t1 = h + bsig1 e + ch e f g + k + w;
          t2 = bsig0 a + maj a b c
      in (t1 + t2, a, b, c, d + t1, e, f, g))"

fun hstate_add :: "hstate \<Rightarrow> hstate \<Rightarrow> hstate" where
  "hstate_add (a, b, c, d, e, f, g, h) (a', b', c', d', e', f', g', h') =
     (a + a', b + b', c + c', d + d', e + e', f + f', g + g', h + h')"

definition compress :: "hstate \<Rightarrow> byte list \<Rightarrow> hstate" where
  "compress H block = hstate_add H (foldl sha_round H (zip K256 (extend 48 (be32 block))))"

fun sha_blocks :: "nat \<Rightarrow> hstate \<Rightarrow> byte list \<Rightarrow> hstate" where
  "sha_blocks 0 H m = H"
| "sha_blocks (Suc n) H m = sha_blocks n (compress H (take 64 m)) (drop 64 m)"

fun hstate_bytes :: "hstate \<Rightarrow> byte list" where
  "hstate_bytes (a, b, c, d, e, f, g, h) =
     bytes_of32 a @ bytes_of32 b @ bytes_of32 c @ bytes_of32 d @
     bytes_of32 e @ bytes_of32 f @ bytes_of32 g @ bytes_of32 h"

definition sha256 :: "byte list \<Rightarrow> byte list" where
  "sha256 m = (let p = sha_pad m in hstate_bytes (sha_blocks (length p div 64) H256 p))"

definition hmac_sha256 :: "byte list \<Rightarrow> byte list \<Rightarrow> byte list" where
  "hmac_sha256 key msg =
     (let k0 = (if length key > 64 then sha256 key else key);
          k = k0 @ replicate (64 - length k0) 0
      in sha256 (map (\<lambda>b. b XOR 92) k @ sha256 (map (\<lambda>b. b XOR 54) k @ msg)))"

definition hex_digit :: "nat \<Rightarrow> char" where
  "hex_digit n = ''0123456789abcdef'' ! (n mod 16)"

definition hex_byte :: "byte \<Rightarrow> string" where
  "hex_byte b = [hex_digit (unat b div 16), hex_digit (unat b mod 16)]"

definition digest_hex :: "byte list \<Rightarrow> string" where
  "digest_hex bs = concat (map hex_byte bs)"

text \<open>Both \<open>createHmac\<close> and \<open>update\<close> take a string as its UTF-8 bytes.\<close>

definition createHmac_sha256_hex :: "string \<Rightarrow> string \<Rightarrow> string" where
  "createHmac_sha256_hex secret msg = digest_hex (hmac_sha256 (Buffer_from secret) (Buffer_from msg))"

section \<open>Webhook signatures (\<open>utils/signatureUtils.ts\<close>)\<close>

text \<open>
  The payload of a webhook is a string or a \<open>Buffer\<close>. The functions below read a
  \<open>Buffer\<close> in three ways only: its truthiness (an object, so always truthy), its
  \<open>typeof\<close>, and \<open>toString('utf8')\<close>. A \<open>Buffer\<close> is therefore represented by the text
  that \<open>toString('utf8')\<close> yields for it; the empty \<open>Buffer\<close> is \<open>Buf []\<close>.
  An argument that is absent (\<open>undefined\<close> or \<open>null\<close>) is \<open>None\<close>.
\<close>

datatype payload = Str string | Buf string

fun payload_toString :: "payload \<Rightarrow> string" where
  "payload_toString (Str s) = s"
| "payload_toString (Buf s) = s"

text \<open>Truthiness, as \<open>!x\<close> and \<open>if (x)\<close> read it.\<close>

fun truthy_payload :: "payload \<Rightarrow> bool" where
  "truthy_payload (Str s) = (s \<noteq> [])"
| "truthy_payload (Buf s) = True"

subsection \<open>\<open>parseInt(string, 10)\<close>\<close>

text \<open>
  ECMAScript's \<open>parseInt\<close> with radix 10: leading white space is skipped, one sign is read,
  then the longest run of decimal digits; no digit gives \<open>NaN\<close>, which is \<open>None\<close> here.
  The white space characters below U+0100 are TAB, LF, VT, FF, CR, SP and NBSP.
\<close>

definition is_white_space :: "char \<Rightarrow> bool" where
  "is_white_space c = ((of_char c :: nat) \<in> {9, 10, 11, 12, 13, 32, 160})"

definition is_digit :: "char \<Rightarrow> bool" where
  "is_digit c = (48 \<le> (of_char c :: nat) \<and> (of_char c :: nat) \<le> 57)"

definition digits_value :: "string \<Rightarrow> nat" where
  "digits_value z = foldl (\<lambda>n c. 10 * n + (of_char c - 48)) 0 z"

definition parseInt :: "string \<Rightarrow> int option" where
  "parseInt str =
     (let s = dropWhile is_white_space str;
          sign = (case s of c # _ \<Rightarrow> if c = CHR ''-'' then - 1 else 1 | [] \<Rightarrow> 1);
          r = (case s of c # t \<Rightarrow> if c = CHR ''+'' \<or> c = CHR ''-'' then t else s | [] \<Rightarrow> s);
          z = takeWhile is_digit r
      in if z = [] then None else Some (sign * int (digits_value z)))"

subsection \<open>\<open>crypto.timingSafeEqual\<close>\<close>

definition timingSafeEqual :: "byte list \<Rightarrow> byte list \<Rightarrow> error + bool" where
  "timingSafeEqual a b =
     (if length a \<noteq> length b
      then Inl (RangeError ''Input buffers must have the same byte length'')
      else Inr (a = b))"

subsection \<open>\<open>verifyWebhookSignature\<close> and \<open>generateWebhookSignature\<close>\<close>

definition ALLOY_SIGNATURE_HEADER :: string where
  "ALLOY_SIGNATURE_HEADER = ''x-alloy-signature''"

definition ALLOY_TIMESTAMP_HEADER :: string where
  "ALLOY_TIMESTAMP_HEADER = ''x-alloy-timestamp''"

text \<open>
  \<open>const signaturePayload = timestamp ? `${timestamp}.${payloadString}` : payloadString\<close>,
  the same line in both functions.
\<close>

definition signaturePayload :: "payload \<Rightarrow> string option \<Rightarrow> string" where
  "signaturePayload payload timestamp =
     (let payloadString = payload_toString payload
      in case timestamp of
           None \<Rightarrow> payloadString
         | Some t \<Rightarrow> if t \<noteq> [] then t @ ''.'' @ payloadString else payloadString)"

text \<open>
  The replay check: \<open>Math.abs(currentTime - webhookTime) > 300\<close> with
  \<open>currentTime = Math.floor(Date.now() / 1000)\<close>. \<open>nowMs\<close> is the reading of \<open>Date.now()\<close>,
  an integer of at most 8.64e15 in absolute value. A comparison with \<open>NaN\<close> is false.
  The integers stand for the doubles of the host: below \<open>2 ^ 53\<close> the subtraction is exact,
  and a timestamp beyond that is rounded (or infinite) but stays further than 300 from any
  current time, so the comparison comes out the same.
\<close>

definition replay_rejected :: "int \<Rightarrow> string \<Rightarrow> bool" where
  "replay_rejected nowMs timestamp =
     (let webhookTime = parseInt timestamp;
          currentTime = nowMs div 1000
      in case webhookTime of
           None \<Rightarrow> False
         | Some w \<Rightarrow> \<bar>currentTime - w\<bar> > 300)"

text \<open>The body of the \<open>try\<close> block.\<close>

definition verifyWebhookSignature_try ::
  "int \<Rightarrow> payload option \<Rightarrow> string option \<Rightarrow> string option \<Rightarrow> string option \<Rightarrow> error + bool" where
  "verifyWebhookSignature_try nowMs payload signature secret timestamp =
     (case payload of
        None \<Rightarrow> Inr False
      | Some p \<Rightarrow>
     (case signature of
        None \<Rightarrow> Inr False
      | Some sg \<Rightarrow>
     (case secret of
        None \<Rightarrow> Inr False
      | Some sec \<Rightarrow>
          if \<not> truthy_payload p \<or> sg = [] \<or> sec = [] then Inr False
          else if (case timestamp of
                     None \<Rightarrow> False
                   | Some t \<Rightarrow> t \<noteq> [] \<and> replay_rejected nowMs t) then Inr False
          else
            let expectedSignature = createHmac_sha256_hex sec (signaturePayload p timestamp);
                sigBuffer = Buffer_from sg;
                expectedBuffer = Buffer_from expectedSignature
            in if length sigBuffer \<noteq> length expectedBuffer then Inr False
               else timingSafeEqual sigBuffer expectedBuffer)))"

text \<open>\<open>try { ... } catch { return false; }\<close>\<close>

definition verifyWebhookSignature ::
  "int \<Rightarrow> payload option \<Rightarrow> string option \<Rightarrow> string option \<Rightarrow> string option \<Rightarrow> error + bool" where
  "verifyWebhookSignature nowMs payload signature secret timestamp =
     (case verifyWebhookSignature_try nowMs payload signature secret timestamp of
        Inl e \<Rightarrow> Inr False
      | Inr b \<Rightarrow> Inr b)"

definition generateWebhookSignature :: "payload \<Rightarrow> string \<Rightarrow> string option \<Rightarrow> string" where
  "generateWebhookSignature payload secret timestamp =
     createHmac_sha256_hex secret (signaturePayload payload timestamp)"

subsection \<open>\<open>extractSignatureFromHeaders\<close>\<close>

text \<open>
  \<open>Record<string, string | string[] | undefined>\<close>: a key that is absent and a key whose
  value is \<open>undefined\<close> read the same, as \<open>None\<close>.
\<close>

datatype header_value = Single string | Multi "string list"

type_synonym headers = "string \<Rightarrow> header_value option"

text \<open>\<open>String.prototype.toLowerCase\<close> on the code points below U+0100.\<close>

definition lower_char :: "char \<Rightarrow> char" where
  "lower_char c =
     (let n = (of_char c :: nat)
      in if (65 \<le> n \<and> n \<le> 90) \<or> (192 \<le> n \<and> n \<le> 222 \<and> n \<noteq> 215)
         then char_of (n + 32) else c)"

definition toLowerCase :: "string \<Rightarrow> string" where
  "toLowerCase s = map lower_char s"

text \<open>Truthiness of a header value: an array is an object, so truthy even when empty.\<close>

fun truthy_header :: "header_value option \<Rightarrow> bool" where
  "truthy_header None = False"
| "truthy_header (Some (Single s)) = (s \<noteq> [])"
| "truthy_header (Some (Multi xs)) = True"

text \<open>
  \<open>const value = headers[name] || headers[name.toLowerCase()];\<close>
  \<open>if (Array.isArray(value)) return value[0] || null;\<close>
  \<open>return value || null;\<close>
\<close>

definition getHeader :: "headers \<Rightarrow> string \<Rightarrow> string option" where
  "getHeader headers name =
     (let v = (if truthy_header (headers name) then headers name
               else headers (toLowerCase name))
      in case v of
           Some (Multi xs) \<Rightarrow>
             (case xs of [] \<Rightarrow> None | x # _ \<Rightarrow> if x \<noteq> [] then Some x else None)
         | Some (Single s) \<Rightarrow> if s \<noteq> [] then Some s else None
         | None \<Rightarrow> None)"

record signature_headers =
  signature :: "string option"
  timestamp :: "string option"

definition extractSignatureFromHeaders :: "headers \<Rightarrow> signature_headers" where
  "extractSignatureFromHeaders headers =
     \<lparr> signature = getHeader headers ALLOY_SIGNATURE_HEADER,
       timestamp = getHeader headers ALLOY_TIMESTAMP_HEADER \<rparr>"

section \<open>JavaScript values\<close>

text \<open>
  JSON data as the code handles it. An object is the list of its properties, in order,
  with distinct keys; the order (in which the host puts integer-like keys first) is never
  read below.
\<close>

datatype jsval =
  JUndefined | JNull | JBool bool | JNum int | JStr string
  | JArr "jsval list" | JObj "(string \<times> jsval) list"

type_synonym obj = "(string \<times> jsval) list"

text \<open>Truthiness and the operator \<open>||\<close>.\<close>

fun truthy :: "jsval \<Rightarrow> bool" where
  "truthy JUndefined = False"
| "truthy JNull = False"
| "truthy (JBool b) = b"
| "truthy (JNum n) = (n \<noteq> 0)"
| "truthy (JStr s) = (s \<noteq> [])"
| "truthy (JArr xs) = True"
| "truthy (JObj kvs) = True"

definition js_or :: "jsval \<Rightarrow> jsval \<Rightarrow> jsval" where
  "js_or a b = (if truthy a then a else b)"

text \<open>
  Reading a property that is not there gives \<open>undefined\<close>. Setting a property keeps the
  position of a key that exists and appends a new one; \<open>{...target, ...source}\<close> sets the
  properties of \<open>source\<close> in turn, and spreading \<open>undefined\<close> adds nothing.
\<close>

definition obj_get :: "obj \<Rightarrow> string \<Rightarrow> jsval" where
  "obj_get kvs k = (case map_of kvs k of Some v \<Rightarrow> v | None \<Rightarrow> JUndefined)"

fun obj_set :: "obj \<Rightarrow> string \<Rightarrow> jsval \<Rightarrow> obj" where
  "obj_set [] k v = [(k, v)]"
| "obj_set ((k', v') # kvs) k v = (if k' = k then (k, v) # kvs else (k', v') # obj_set kvs k v)"

definition obj_spread :: "obj \<Rightarrow> obj option \<Rightarrow> obj" where
  "obj_spread target source =
     (case source of None \<Rightarrow> target | Some kvs \<Rightarrow> foldl (\<lambda>t (k, v). obj_set t k v) target kvs)"

text \<open>
  \<open>v.k\<close> throws a \<open>TypeError\<close> when \<open>v\<close> is \<open>null\<close> or \<open>undefined\<close>. On any other value it
  reads the property; the keys read in this development (\<open>data\<close>, \<open>page\<close>, \<open>limit\<close>,
  \<open>total\<close>, \<open>has_more\<close>) name no built-in property of a string, number, boolean or array.
\<close>

fun nullish :: "jsval \<Rightarrow> bool" where
  "nullish JUndefined = True"
| "nullish JNull = True"
| "nullish v = False"

fun get_prop :: "jsval \<Rightarrow> string \<Rightarrow> jsval" where
  "get_prop (JObj kvs) k = obj_get kvs k"
| "get_prop v k = JUndefined"

section \<open>Retry with exponential backoff (\<open>withRetry\<close> in \<open>transport/documentHandler.ts\<close>)\<close>

text \<open>
  A promise can reject with any value, and \<open>catch (error: any)\<close> receives it as it is:
  an \<open>Error\<close> object (\<open>Exn\<close>) or any other value (\<open>Val\<close>), \<open>null\<close> and \<open>undefined\<close> included.
  \<open>error.statusCode\<close> throws a \<open>TypeError\<close> on \<open>null\<close> and \<open>undefined\<close>; on an \<open>Error\<close> object it
  reads the property that the response interceptor sets, on a plain object the property of
  that name, and on any other value \<open>undefined\<close>.
\<close>

datatype thrown = Exn error | Val jsval

fun read_statusCode :: "thrown \<Rightarrow> error + jsval" where
  "read_statusCode (Exn e) = Inr (case statusCode e of Some n \<Rightarrow> JNum n | None \<Rightarrow> JUndefined)"
| "read_statusCode (Val JNull) =
     Inl (TypeError ''Cannot read properties of null (reading 'statusCode')'')"
| "read_statusCode (Val JUndefined) =
     Inl (TypeError ''Cannot read properties of undefined (reading 'statusCode')'')"
| "read_statusCode (Val (JObj kvs)) = Inr (obj_get kvs ''statusCode'')"
| "read_statusCode (Val v) = Inr JUndefined"

text \<open>
  The operation \<open>fn: () => Promise<T>\<close> acts on a state of its own and either resolves with
  a value or rejects. What \<open>withRetry\<close> does to the world is recorded as a
  trace: \<open>Invoked\<close> for each \<open>await fn()\<close>, \<open>Slept d\<close> for each
  \<open>await new Promise((resolve) => setTimeout(resolve, d))\<close>.
  The loop is \<open>for (let attempt = 0; attempt <= maxRetries; attempt++)\<close>; after it comes
  \<open>throw lastError\<close>, where \<open>lastError\<close> is still \<open>null\<close> when the body never ran. Inside
  the \<open>catch\<close> block the test \<open>error.statusCode === 429 && attempt < maxRetries\<close> reads the
  property first: the \<open>TypeError\<close> of that read leaves the function in place of the value
  that was caught.
\<close>

datatype event = Invoked | Slept int

type_synonym ('s, 'a) operation = "'s \<Rightarrow> (thrown + 'a) \<times> 's"

function withRetry_loop ::
  "('s, 'a) operation \<Rightarrow> int \<Rightarrow> int \<Rightarrow> int \<Rightarrow> thrown \<Rightarrow> 's \<times> event list
     \<Rightarrow> (thrown + 'a) \<times> 's \<times> event list" where
  "withRetry_loop fn maxRetries initialDelay attempt lastError (s, tr) =
     (if attempt \<le> maxRetries then
        (case fn s of
           (Inr v, s') \<Rightarrow> (Inr v, s', tr @ [Invoked])
         | (Inl error, s') \<Rightarrow>
             (case read_statusCode error of
                Inl typeError \<Rightarrow> (Inl (Exn typeError), s', tr @ [Invoked])
              | Inr code \<Rightarrow>
                  if code = JNum 429 \<and> attempt < maxRetries
                  then withRetry_loop fn maxRetries initialDelay (attempt + 1) error
                         (s', tr @ [Invoked, Slept (initialDelay * 2 ^ nat attempt)])
                  else (Inl error, s', tr @ [Invoked])))
      else (Inl lastError, s, tr))"
  by pat_completeness auto
termination
  by (relation "measure (\<lambda>(fn, maxRetries, initialDelay, attempt, lastError, w). nat (maxRetries + 1 - attempt))") auto

declare withRetry_loop.simps [simp del]

text \<open>
  The defaults are \<open>maxRetries = 3\<close> and \<open>initialDelay = 1000\<close>; \<open>lastError\<close> starts as \<open>null\<close>.
\<close>

definition withRetry ::
  "('s, 'a) operation \<Rightarrow> int option \<Rightarrow> int option \<Rightarrow> 's \<times> event list
     \<Rightarrow> (thrown + 'a) \<times> 's \<times> event list" where
  "withRetry fn maxRetries initialDelay w =
     withRetry_loop fn (case maxRetries of None \<Rightarrow> 3 | Some m \<Rightarrow> m)
       (case initialDelay of None \<Rightarrow> 1000 | Some d \<Rightarrow> d) 0 (Val JNull) w"

section \<open>Paginated requests (\<open>alloyApiGetPaginated\<close>)\<close>

text \<open>
  The interfaces \<open>PaginationParams\<close> and \<open>AlloyApiResponse\<close> (with its \<open>pagination\<close> part).
  Field names share one name space with the variables of the functions below, so each
  field carries a prefix: \<open>params_page\<close> is the field \<open>page\<close> of the parameters,
  \<open>pagination_hasMore\<close> the field \<open>hasMore\<close> of \<open>pagination\<close>, \<open>response_data\<close> the field
  \<open>data\<close> of the returned object.
\<close>

record PaginationParams =
  params_page :: "int option"
  params_limit :: "int option"
  params_sort :: "string option"
  params_order :: "string option"

record PaginationState =
  pagination_page :: jsval
  pagination_limit :: jsval
  pagination_total :: jsval
  pagination_hasMore :: jsval

record AlloyApiResponse =
  response_success :: bool
  response_data :: jsval
  response_pagination :: PaginationState

text \<open>
  \<open>client.get(endpoint, { params })\<close> of the HTTP client: it acts on the state of the
  server and the network, and resolves with a response, of which \<open>response.data\<close> (the
  parsed body) is kept, or rejects.
\<close>

type_synonym 's client = "string \<Rightarrow> obj \<Rightarrow> 's \<Rightarrow> (error + jsval) \<times> 's"

text \<open>\<open>pagination.page || 1\<close> and \<open>pagination.limit || 25\<close>; \<open>sort: pagination.sort\<close>.\<close>

definition number_or :: "int option \<Rightarrow> int \<Rightarrow> jsval" where
  "number_or v d = (case v of None \<Rightarrow> JNum d | Some n \<Rightarrow> if n \<noteq> 0 then JNum n else JNum d)"

definition optional_string :: "string option \<Rightarrow> jsval" where
  "optional_string v = (case v of None \<Rightarrow> JUndefined | Some s \<Rightarrow> JStr s)"

definition request_params :: "PaginationParams \<Rightarrow> obj option \<Rightarrow> obj" where
  "request_params pagination additionalParams =
     obj_spread
       [(''page'', number_or (params_page pagination) 1),
        (''limit'', number_or (params_limit pagination) 25),
        (''sort'', optional_string (params_sort pagination)),
        (''order'', optional_string (params_order pagination))]
       additionalParams"

definition alloyApiGetPaginated ::
  "'s client \<Rightarrow> string \<Rightarrow> PaginationParams \<Rightarrow> obj option \<Rightarrow> 's
     \<Rightarrow> (error + AlloyApiResponse) \<times> 's" where
  "alloyApiGetPaginated client endpoint pagination additionalParams s =
     (let params = request_params pagination additionalParams
      in case client endpoint params s of
           (Inl e, s') \<Rightarrow> (Inl e, s')
         | (Inr body, s') \<Rightarrow>
             if nullish body
             then (Inl (TypeError (if body = JNull
                                   then ''Cannot read properties of null (reading 'data')''
                                   else ''Cannot read properties of undefined (reading 'data')'')),
                   s')
             else (Inr \<lparr> response_success = True,
                         response_data = js_or (get_prop body ''data'') body,
                         response_pagination =
                           \<lparr> pagination_page = js_or (get_prop body ''page'') (obj_get params ''page''),
                             pagination_limit = js_or (get_prop body ''limit'') (obj_get params ''limit''),
                             pagination_total = js_or (get_prop body ''total'') (JNum 0),
                             pagination_hasMore = js_or (get_prop body ''has_more'') (JBool False) \<rparr> \<rparr>,
                   s'))"

section \<open>Listing all evaluations (\<open>executeEvaluationOperation\<close>, operation \<open>list\<close>)\<close>

text \<open>
  \<open>allResults.push(...response.data)\<close>: an array spreads into its elements, a string into
  its characters, and any other truthy value is not iterable.
\<close>

fun spread :: "jsval \<Rightarrow> error + jsval list" where
  "spread (JArr xs) = Inr xs"
| "spread (JStr s) = Inr (map (\<lambda>c. JStr [c]) s)"
| "spread v = Inl (TypeError ''Spread syntax requires ...iterable[Symbol.iterator] to be a function'')"

text \<open>
  \<open>while (hasMore) { ... }\<close> with \<open>page\<close> starting at 1 and \<open>hasMore\<close> at \<open>true\<close>. The loop has
  no bound of its own: where it runs forever the result is \<open>None\<close>.
\<close>

partial_function (option) returnAll_loop ::
  "'s client \<Rightarrow> string \<Rightarrow> obj \<Rightarrow> int \<Rightarrow> jsval \<Rightarrow> jsval list \<Rightarrow> 's
     \<Rightarrow> ((error + jsval list) \<times> 's) option" where
  "returnAll_loop client endpoint filters page hasMore allResults s =
     (if truthy hasMore then
        (case alloyApiGetPaginated client endpoint
                \<lparr> params_page = Some page, params_limit = Some 100,
                  params_sort = None, params_order = None \<rparr> (Some filters) s of
           (Inl e, s') \<Rightarrow> Some (Inl e, s')
         | (Inr response, s') \<Rightarrow>
             (case (if truthy (response_data response)
                    then (case spread (response_data response) of
                            Inl e \<Rightarrow> Inl e | Inr items \<Rightarrow> Inr (allResults @ items))
                    else Inr allResults) of
                Inl e \<Rightarrow> Some (Inl e, s')
              | Inr allResults' \<Rightarrow>
                  returnAll_loop client endpoint filters (page + 1)
                    (js_or (pagination_hasMore (response_pagination response)) (JBool False))
                    allResults' s'))
      else Some (Inr allResults, s))"

text \<open>\<open>returnData.push(...allResults.map((item) => ({ json: item })))\<close>\<close>

definition list_returnAll ::
  "'s client \<Rightarrow> string \<Rightarrow> obj \<Rightarrow> 's \<Rightarrow> ((error + jsval list) \<times> 's) option" where
  "list_returnAll client endpoint filters s =
     (case returnAll_loop client endpoint filters 1 (JBool True) [] s of
        None \<Rightarrow> None
      | Some (Inl e, s') \<Rightarrow> Some (Inl e, s')
      | Some (Inr allResults, s') \<Rightarrow>
          Some (Inr (map (\<lambda>item. JObj [(''json'', item)]) allResults), s'))"


section \<open>\<open>JSON.stringify\<close>\<close>

text \<open>
  On the values above: an integer prints in decimal (as the host does below \<open>10 ^ 21\<close> in
  absolute value), a string is quoted with the escapes of
  JSON, \<open>undefined\<close> prints as \<open>null\<close> inside an array and drops the property inside an
  object. The handler serialises objects only (at top level \<open>JSON.stringify(undefined)\<close> is
  \<open>undefined\<close>, not a string).
\<close>

fun show_nat :: "nat \<Rightarrow> string" where
  "show_nat n =
     (if n < 10 then [''0123456789'' ! n]
      else show_nat (n div 10) @ [''0123456789'' ! (n mod 10)])"

definition show_int :: "int \<Rightarrow> string" where
  "show_int i = (if i < 0 then CHR ''-'' # show_nat (nat (- i)) else show_nat (nat i))"

definition escape_char :: "char \<Rightarrow> string" where
  "escape_char c =
     (let n = (of_char c :: nat)
      in if n = 34 then [CHR 0x5C, CHR 0x22]
         else if n = 92 then [CHR 0x5C, CHR 0x5C]
         else if n = 8 then [CHR 0x5C, CHR ''b'']
         else if n = 9 then [CHR 0x5C, CHR ''t'']
         else if n = 10 then [CHR 0x5C, CHR ''n'']
         else if n = 12 then [CHR 0x5C, CHR ''f'']
         else if n = 13 then [CHR 0x5C, CHR ''r'']
         else if n < 32 then [CHR 0x5C, CHR ''u'', CHR ''0'', CHR ''0'', hex_digit (n div 16), hex_digit n]
         else [c])"

definition quote :: "string \<Rightarrow> string" where
  "quote s = [CHR 0x22] @ concat (map escape_char s) @ [CHR 0x22]"

fun join :: "string list \<Rightarrow> string" where
  "join [] = []"
| "join [x] = x"
| "join (x # y # r) = x @ '','' @ join (y # r)"

fun stringify :: "jsval \<Rightarrow> string" where
  "stringify JUndefined = ''null''"
| "stringify JNull = ''null''"
| "stringify (JBool b) = (if b then ''true'' else ''false'')"
| "stringify (JNum n) = show_int n"
| "stringify (JStr s) = quote s"
| "stringify (JArr xs) = ''['' @ join (map stringify xs) @ '']''"
| "stringify (JObj kvs) =
     ''{'' @ join (map (\<lambda>(k, v). quote k @ '':'' @ stringify v)
                    (filter (\<lambda>(k, v). v \<noteq> JUndefined) kvs)) @ ''}''"


section \<open>The webhook handler (\<open>transport/webhookHandler.ts\<close>, \<open>AlloyTrigger.webhook\<close>)\<close>

text \<open>
  What the handler reads from the host (\<open>IWebhookFunctions\<close>): the headers of the request,
  the parsed body (\<open>getBodyData()\<close>, an \<open>IDataObject\<close>), the node parameters \<open>events\<close>,
  \<open>verifySignature\<close> and \<open>options.includeRawPayload\<close>, the outcome of
  \<open>getCredentials('alloyApi')\<close> (an exception, or credentials whose \<open>webhookSecret\<close> is a
  string or missing), and the clock.
\<close>

record webhook_context =
  request_headers :: headers
  bodyData :: obj
  param_events :: "string list"
  param_verifySignature :: bool
  option_includeRawPayload :: bool
  credentials_webhookSecret :: "error + string option"
  date_now :: int

record WebhookValidationResult =
  isValid :: bool
  error :: "string option"
  payload :: "obj option"

text \<open>The end of \<open>validateAlloyWebhook\<close>: the check of the payload structure.\<close>

definition validate_structure :: "obj \<Rightarrow> WebhookValidationResult" where
  "validate_structure body =
     (if \<not> truthy (obj_get body ''event_type'')
      then \<lparr> isValid = False, error = Some ''Missing event_type in webhook payload'',
             payload = None \<rparr>
      else \<lparr> isValid = True, error = None, payload = Some body \<rparr>)"

definition validateAlloyWebhook :: "webhook_context \<Rightarrow> string option \<Rightarrow> WebhookValidationResult" where
  "validateAlloyWebhook context webhookSecret =
     (let body = bodyData context
      in case webhookSecret of
           None \<Rightarrow> validate_structure body
         | Some sec \<Rightarrow>
             if sec = [] then validate_structure body
             else
               let extracted = extractSignatureFromHeaders (request_headers context)
               in (case signature extracted of
                     None \<Rightarrow>
                       \<lparr> isValid = False,
                         error = Some (''Missing webhook signature header: '' @ ALLOY_SIGNATURE_HEADER),
                         payload = None \<rparr>
                   | Some sg \<Rightarrow>
                       if sg = [] then
                         \<lparr> isValid = False,
                           error = Some (''Missing webhook signature header: '' @ ALLOY_SIGNATURE_HEADER),
                           payload = None \<rparr>
                       else
                         let rawBody = stringify (JObj body);
                             valid = verifyWebhookSignature (date_now context) (Some (Str rawBody))
                                       (Some sg) (Some sec) (timestamp extracted)
                         in if valid \<noteq> Inr True
                            then \<lparr> isValid = False, error = Some ''Invalid webhook signature'',
                                   payload = None \<rparr>
                            else validate_structure body))"

definition webhookPayloadToExecutionData :: "obj \<Rightarrow> jsval list" where
  "webhookPayloadToExecutionData pl =
     [JObj [(''json'',
        JObj [(''eventType'', obj_get pl ''event_type''),
              (''eventId'', obj_get pl ''event_id''),
              (''timestamp'', obj_get pl ''timestamp''),
              (''entityToken'', obj_get pl ''entity_token''),
              (''evaluationToken'', obj_get pl ''evaluation_token''),
              (''applicationToken'', obj_get pl ''application_token''),
              (''data'', obj_get pl ''data'')])]]"

record WebhookResponse =
  status :: int
  body :: jsval

record IWebhookResponseData =
  workflowData :: "jsval list list option"
  webhookResponse :: WebhookResponse

text \<open>\<open>events.includes(payload.event_type)\<close>, on a list of strings.\<close>

definition array_includes :: "string list \<Rightarrow> jsval \<Rightarrow> bool" where
  "array_includes events v = (case v of JStr s \<Rightarrow> s \<in> set events | _ \<Rightarrow> False)"

text \<open>\<open>executionData[0].json.rawPayload = this.getBodyData()\<close>\<close>

definition add_rawPayload :: "jsval list \<Rightarrow> obj \<Rightarrow> jsval list" where
  "add_rawPayload executionData raw =
     (case executionData of
        JObj [(k, JObj json)] # rest \<Rightarrow> JObj [(k, JObj (obj_set json ''rawPayload'' (JObj raw)))] # rest
      | _ \<Rightarrow> executionData)"

definition webhook :: "webhook_context \<Rightarrow> error + IWebhookResponseData" where
  "webhook context =
     (let events = param_events context;
          verifySignature = param_verifySignature context;
          webhookSecret =
            (if verifySignature
             then (case credentials_webhookSecret context of Inl e \<Rightarrow> None | Inr secret \<Rightarrow> secret)
             else None);
          validation = validateAlloyWebhook context webhookSecret
      in if \<not> isValid validation then
           Inr \<lparr> workflowData = None,
                 webhookResponse =
                   \<lparr> status = 400,
                     body = JObj [(''error'', optional_string (error validation))] \<rparr> \<rparr>
         else
           case payload validation of
             None \<Rightarrow> Inl (TypeError ''Cannot read properties of undefined (reading 'event_type')'')
           | Some pl \<Rightarrow>
               if events \<noteq> [] \<and> \<not> array_includes events (obj_get pl ''event_type'') then
                 Inr \<lparr> workflowData = None,
                       webhookResponse =
                         \<lparr> status = 200,
                           body = JObj [(''received'', JBool True), (''processed'', JBool False),
                                        (''reason'', JStr ''Event type not in filter'')] \<rparr> \<rparr>
               else
                 let executionData = webhookPayloadToExecutionData pl;
                     executionData' =
                       (if option_includeRawPayload context
                        then add_rawPayload executionData (bodyData context)
                        else executionData)
                 in Inr \<lparr> workflowData = Some [executionData'],
                          webhookResponse =
                            \<lparr> status = 200,
                              body = JObj [(''received'', JBool True), (''processed'', JBool True)] \<rparr> \<rparr>)"

section \<open>Operations, servers and deliveries for the examples\<close>

text \<open>
  An operation that is rate limited at every call, one that fails with status 500, and one
  that rejects with \<open>null\<close> (\<open>Promise.reject(null)\<close>). The state counts the calls.
\<close>

definition always_rate_limited :: "(nat, jsval) operation" where
  "always_rate_limited n =
     (Inl (Exn (Error ''Alloy API Error [HTTP_429]: Unknown error'' (Some 429))), n + 1)"

definition server_error :: "(nat, jsval) operation" where
  "server_error n =
     (Inl (Exn (Error ''Alloy API Error [HTTP_500]: Unknown error'' (Some 500))), n + 1)"

definition null_rejection :: "(nat, jsval) operation" where
  "null_rejection n = (Inl (Val JNull), n + 1)"



text \<open>
  A server that holds numbered pages: \<open>srv k\<close> is the list of items of page \<open>k\<close> and
  whether more pages follow. The client answers a request by the page that the request
  parameter \<open>page\<close> names, and keeps the log of the requests it received.
\<close>

definition paged_client :: "(int \<Rightarrow> jsval list \<times> bool) \<Rightarrow> (string \<times> obj) list client" where
  "paged_client srv endpoint params log =
     (case obj_get params ''page'' of
        JNum k \<Rightarrow>
          (Inr (JObj [(''data'', JArr (fst (srv k))), (''has_more'', JBool (snd (srv k)))]),
           log @ [(endpoint, params)])
      | _ \<Rightarrow> (Inl (Error ''Alloy API Error [HTTP_400]: Unknown error'' (Some 400)),
              log @ [(endpoint, params)]))"

text \<open>Three pages of 100 items each: the items are numbered 1 to 300.\<close>

definition three_pages :: "int \<Rightarrow> jsval list \<times> bool" where
  "three_pages k = (map JNum [100 * (k - 1) + 1 .. 100 * k], k < 3)"

text \<open>The parameters of the request for page \<open>k\<close> in the loop that lists all results.\<close>

abbreviation (input) page_request :: "obj \<Rightarrow> int \<Rightarrow> obj" where
  "page_request filters k \<equiv>
     request_params \<lparr> params_page = Some k, params_limit = Some 100,
                      params_sort = None, params_order = None \<rparr> (Some filters)"

text \<open>
  A delivery to the trigger node with signature verification enabled and a webhook secret
  in the credentials; \<open>signed b\<close> are the headers that carry the signature of the body \<open>b\<close>.
\<close>

definition test_secret :: string where
  "test_secret = ''test-webhook-secret-12345678901234567890''"

definition delivery :: "headers \<Rightarrow> obj \<Rightarrow> string list \<Rightarrow> webhook_context" where
  "delivery h b evs =
     \<lparr> request_headers = h, bodyData = b, param_events = evs, param_verifySignature = True,
       option_includeRawPayload = False, credentials_webhookSecret = Inr (Some test_secret),
       date_now = 1700000000000 \<rparr>"

definition completed_event :: obj where
  "completed_event = [(''event_type'', JStr ''evaluation.completed''), (''data'', JObj [])]"

definition signed :: "obj \<Rightarrow> headers" where
  "signed b =
     [''x-alloy-signature'' \<mapsto> Single (generateWebhookSignature (Str (stringify (JObj b))) test_secret None)]"

text \<open>
  Notation for the statements about the handler: the secret that the handler obtains
  (the first lines of \<open>AlloyTrigger.webhook\<close>), the call of \<open>verifyWebhookSignature\<close> that
  \<open>validateAlloyWebhook\<close> makes, when verification lets a delivery through, and the
  response of a rejection.
\<close>

abbreviation (input) handler_secret :: "webhook_context \<Rightarrow> string option" where
  "handler_secret ctx \<equiv>
     (if param_verifySignature ctx
      then (case credentials_webhookSecret ctx of Inl e \<Rightarrow> None | Inr secret \<Rightarrow> secret)
      else None)"

abbreviation (input) signature_check :: "webhook_context \<Rightarrow> string \<Rightarrow> string \<Rightarrow> error + bool" where
  "signature_check ctx sg sec \<equiv>
     verifyWebhookSignature (date_now ctx) (Some (Str (stringify (JObj (bodyData ctx)))))
       (Some sg) (Some sec)
       (timestamp (extractSignatureFromHeaders (request_headers ctx)))"

abbreviation (input) verification_passed :: "webhook_context \<Rightarrow> bool" where
  "verification_passed ctx \<equiv>
     handler_secret ctx = None \<or> handler_secret ctx = Some [] \<or>
     (\<exists>sec sg. handler_secret ctx = Some sec \<and>
        signature (extractSignatureFromHeaders (request_headers ctx)) = Some sg \<and>
        signature_check ctx sg sec = Inr True)"

abbreviation (input) rejected :: "string \<Rightarrow> error + IWebhookResponseData" where
  "rejected reason \<equiv>
     Inr \<lparr> workflowData = None,
           webhookResponse = \<lparr> status = 400, body = JObj [(''error'', JStr reason)] \<rparr> \<rparr>"

section \<open>Properties of the signature utilities\<close>

subsection \<open>The digest and the UTF-8 encoding\<close>

lemma length_digest_hex: "length (digest_hex bs) = 2 * length bs"
  by (induction bs) (simp_all add: digest_hex_def hex_byte_def)

lemma length_hstate_bytes: "length (hstate_bytes H) = 32"
  by (cases H rule: hstate_bytes.cases) (simp add: bytes_of32_def)

lemma length_sha256: "length (sha256 m) = 32"
  by (simp add: sha256_def Let_def length_hstate_bytes)

lemma length_createHmac: "length (createHmac_sha256_hex k m) = 64"
  by (simp add: createHmac_sha256_hex_def hmac_sha256_def Let_def length_digest_hex length_sha256)

lemma createHmac_not_Nil: "createHmac_sha256_hex k m \<noteq> []"
  using length_createHmac [of k m] by auto

text \<open>A generated signature is 64 lowercase hexadecimal digits.\<close>

lemma hex_digit_lower: "hex_digit n \<in> set ''0123456789abcdef''"
proof -
  have "n mod 16 < length ''0123456789abcdef''" by simp
  then show ?thesis unfolding hex_digit_def by (rule nth_mem)
qed

lemma digest_hex_lower: "set (digest_hex bs) \<subseteq> set ''0123456789abcdef''"
  using hex_digit_lower by (induction bs) (auto simp: digest_hex_def hex_byte_def)

lemma generated_signature_shape:
  "length (generateWebhookSignature p secret ts) = 64"
  "set (generateWebhookSignature p secret ts) \<subseteq> set ''0123456789abcdef''"
proof -
  show "length (generateWebhookSignature p secret ts) = 64"
    by (simp add: generateWebhookSignature_def length_createHmac)
  show "set (generateWebhookSignature p secret ts) \<subseteq> set ''0123456789abcdef''"
    unfolding generateWebhookSignature_def createHmac_sha256_hex_def by (rule digest_hex_lower)
qed

lemma of_nat_byte_inj:
  assumes "m < 256" "n < 256" "(of_nat m :: byte) = of_nat n"
  shows "m = n"
proof -
  have "take_bit 8 m = take_bit 8 n"
    using assms(3) by (simp add: word_of_nat_eq_iff)
  moreover have "take_bit 8 m = m" "take_bit 8 n = n"
    using assms(1,2) by (simp_all add: take_bit_nat_eq_self)
  ultimately show ?thesis by simp
qed

lemma utf8_char_low: "(of_char c :: nat) < 128 \<Longrightarrow> utf8_char c = [of_nat (of_char c)]"
  by (simp add: utf8_char_def)

lemma utf8_char_high:
  "\<not> (of_char c :: nat) < 128 \<Longrightarrow>
     utf8_char c = [of_nat (192 + of_char c div 64), of_nat (128 + of_char c mod 64)]"
  by (simp add: utf8_char_def Let_def)

lemma utf8_char_inj:
  assumes "utf8_char c @ r = utf8_char d @ r'"
  shows "c = d \<and> r = r'"
proof -
  define m where "m = (of_char c :: nat)"
  define n where "n = (of_char d :: nat)"
  have lt: "m < 256" "n < 256" by (simp_all add: m_def n_def)
  have cd: "m = n \<Longrightarrow> c = d" by (simp add: m_def n_def)
  have bounds: "192 + m div 64 < 256" "192 + n div 64 < 256"
    "128 + m mod 64 < 256" "128 + n mod 64 < 256"
    using lt by simp_all
  show ?thesis
  proof (cases "m < 128")
    case m: True
    then have uc: "utf8_char c = [of_nat m]" unfolding m_def by (rule utf8_char_low)
    show ?thesis
    proof (cases "n < 128")
      case True
      then have "utf8_char d = [of_nat n]" unfolding n_def by (rule utf8_char_low)
      with uc assms have "(of_nat m :: byte) = of_nat n" "r = r'"
        by (simp_all only: append_Cons append_Nil list.inject)
      with lt cd show ?thesis by (auto dest: of_nat_byte_inj)
    next
      case False
      then have "utf8_char d = [of_nat (192 + n div 64), of_nat (128 + n mod 64)]"
        unfolding n_def by (rule utf8_char_high)
      with uc assms have "(of_nat m :: byte) = of_nat (192 + n div 64)"
        by (simp only: append_Cons append_Nil list.inject)
      then have "m = 192 + n div 64" using lt bounds by (rule_tac of_nat_byte_inj)
      with m show ?thesis by simp
    qed
  next
    case m: False
    then have uc: "utf8_char c = [of_nat (192 + m div 64), of_nat (128 + m mod 64)]"
      unfolding m_def by (rule utf8_char_high)
    show ?thesis
    proof (cases "n < 128")
      case True
      then have "utf8_char d = [of_nat n]" unfolding n_def by (rule utf8_char_low)
      with uc assms have "(of_nat (192 + m div 64) :: byte) = of_nat n"
        by (simp only: append_Cons append_Nil list.inject)
      then have "192 + m div 64 = n" using lt bounds by (rule_tac of_nat_byte_inj)
      with True show ?thesis by simp
    next
      case False
      then have "utf8_char d = [of_nat (192 + n div 64), of_nat (128 + n mod 64)]"
        unfolding n_def by (rule utf8_char_high)
      with uc assms have e: "(of_nat (192 + m div 64) :: byte) = of_nat (192 + n div 64)"
        "(of_nat (128 + m mod 64) :: byte) = of_nat (128 + n mod 64)" "r = r'"
        by (simp_all only: append_Cons append_Nil list.inject)
      have "192 + m div 64 = 192 + n div 64" 
        using bounds e(1) by (rule_tac of_nat_byte_inj)
      moreover have "128 + m mod 64 = 128 + n mod 64"
        using bounds e(2) by (rule_tac of_nat_byte_inj)
      ultimately have "m div 64 = n div 64" "m mod 64 = n mod 64" by simp_all
      then have "m = n" by (metis div_mult_mod_eq)
      with cd e show ?thesis by simp
    qed
  qed
qed

lemma utf8_char_not_Nil: "utf8_char c \<noteq> []"
  by (simp add: utf8_char_def Let_def)

lemma Buffer_from_Cons: "Buffer_from (c # s) = utf8_char c @ Buffer_from s"
  by (simp add: Buffer_from_def)

lemma Buffer_from_Nil: "Buffer_from [] = []"
  by (simp add: Buffer_from_def)

lemma Buffer_from_Cons_not_Nil: "Buffer_from (c # s) \<noteq> []"
  by (simp add: Buffer_from_Cons utf8_char_not_Nil)

lemma Buffer_from_inj: "Buffer_from a = Buffer_from b \<Longrightarrow> a = b"
proof (induction a arbitrary: b)
  case Nil
  then show ?case
    by (cases b) (simp_all only: Buffer_from_Nil Buffer_from_Cons_not_Nil not_sym [OF Buffer_from_Cons_not_Nil])
next
  case (Cons c a)
  show ?case
  proof (cases b)
    case Nil
    with Cons.prems show ?thesis
      by (simp only: Buffer_from_Nil Buffer_from_Cons_not_Nil)
  next
    case (Cons d b')
    with Cons.prems have "utf8_char c @ Buffer_from a = utf8_char d @ Buffer_from b'"
      by (simp only: Buffer_from_Cons)
    then have "c = d" "Buffer_from a = Buffer_from b'" by (auto dest: utf8_char_inj)
    with Cons.IH Cons show ?thesis by simp
  qed
qed

subsection \<open>Verification\<close>

text \<open>
  With all three arguments present, the verdict is a conjunction: the payload and the secret
  pass the truthiness guard, the replay check does not reject, and the candidate is the
  expected digest. The comparison of the two buffers decides equality of the two strings,
  since the encoding is injective.
\<close>

lemma verify_present:
  "verifyWebhookSignature nowMs (Some p) (Some sg) (Some sec) ts =
     Inr (truthy_payload p \<and> sec \<noteq> [] \<and>
          \<not> (case ts of None \<Rightarrow> False | Some t \<Rightarrow> t \<noteq> [] \<and> replay_rejected nowMs t) \<and>
          sg = createHmac_sha256_hex sec (signaturePayload p ts))"
proof -
  let ?e = "createHmac_sha256_hex sec (signaturePayload p ts)"
  have ne: "?e \<noteq> []" by (rule createHmac_not_Nil)
  have inj: "Buffer_from sg = Buffer_from ?e \<longleftrightarrow> sg = ?e"
    by (auto dest: Buffer_from_inj)
  have len: "length (Buffer_from sg) \<noteq> length (Buffer_from ?e) \<Longrightarrow> sg \<noteq> ?e"
    by auto
  show ?thesis
    using ne len
    by (auto simp: verifyWebhookSignature_def verifyWebhookSignature_try_def Let_def
        timingSafeEqual_def inj)
qed

lemma verify_absent:
  "pl = None \<or> sg = None \<or> sec = None \<Longrightarrow>
   verifyWebhookSignature nowMs pl sg sec ts = Inr False"
  by (auto simp: verifyWebhookSignature_def verifyWebhookSignature_try_def split: option.splits)

lemma parseInt_Nil: "parseInt [] = None"
  by (simp add: parseInt_def)

lemmas parseInt_eval = parseInt_def is_white_space_def is_digit_def digits_value_def

text \<open>
  Claim C1 says that a generated signature verifies for every payload and secret. The guard
  \<open>if (!payload || !signature || !secret) return false\<close> rejects the empty string as a
  payload (and as a secret), although \<open>generateWebhookSignature\<close> signs it: the signature
  generated for the empty payload does not verify.
\<close>

theorem generated_signature_of_empty_payload_rejected:
  "verifyWebhookSignature 1700000000000 (Some (Str []))
     (Some (generateWebhookSignature (Str []) ''test-webhook-secret-12345678901234567890'' None))
     (Some ''test-webhook-secret-12345678901234567890'') None = Inr False"
  by (simp add: verify_present)

text \<open>
  Claim C1, amended: for every payload that is a non-empty string or a \<open>Buffer\<close>, and every
  non-empty secret, verifying the signature that \<open>generateWebhookSignature\<close> produces for
  that payload and secret (with no timestamp) returns true, whatever the time.
\<close>

theorem verify_generated_signature:
  "truthy_payload p \<Longrightarrow> secret \<noteq> [] \<Longrightarrow>
   verifyWebhookSignature nowMs (Some p) (Some (generateWebhookSignature p secret None))
     (Some secret) None = Inr True"
  by (simp add: verify_present generateWebhookSignature_def)

theorem verify_generated_signature_witness:
  "verifyWebhookSignature 1700000000000
     (Some (Str ''{\"event_type\":\"evaluation.completed\",\"data\":{}}''))
     (Some (generateWebhookSignature (Str ''{\"event_type\":\"evaluation.completed\",\"data\":{}}'')
              ''test-webhook-secret-12345678901234567890'' None))
     (Some ''test-webhook-secret-12345678901234567890'') None = Inr True"
  using verify_generated_signature [of "Str ''{\"event_type\":\"evaluation.completed\",\"data\":{}}''"
      "''test-webhook-secret-12345678901234567890''" 1700000000000]
  by simp

text \<open>
  Claim C2: when a timestamp is supplied and \<open>parseInt\<close> reads the integer \<open>w\<close> from it,
  and the current time in seconds differs from \<open>w\<close> by more than 300 in absolute value (in
  particular when \<open>w\<close> is more than 300 seconds old), the result is false, whatever the
  payload, the candidate signature and the secret are: also for the right signature.
\<close>

theorem verify_rejects_stale_timestamp:
  "parseInt t = Some w \<Longrightarrow> \<bar>nowMs div 1000 - w\<bar> > 300 \<Longrightarrow>
   verifyWebhookSignature nowMs pl sg sec (Some t) = Inr False"
proof -
  assume a: "parseInt t = Some w" "\<bar>nowMs div 1000 - w\<bar> > 300"
  then have "t \<noteq> []" using parseInt_Nil by auto
  with a have "replay_rejected nowMs t" by (simp add: replay_rejected_def)
  with \<open>t \<noteq> []\<close> show ?thesis
    by (cases pl; cases sg; cases sec) (simp_all add: verify_present verify_absent)
qed

theorem verify_rejects_stale_timestamp_witness:
  "parseInt ''1700000000'' = Some 1700000000 \<and>
   \<bar>1700000301000 div 1000 - 1700000000\<bar> > (300 :: int) \<and>
   verifyWebhookSignature 1700000301000 (Some (Str ''{}''))
     (Some (generateWebhookSignature (Str ''{}'') ''secret'' (Some ''1700000000'')))
     (Some ''secret'') (Some ''1700000000'') = Inr False"
proof -
  have p: "parseInt ''1700000000'' = Some 1700000000" by (simp add: parseInt_eval)
  have d: "\<bar>1700000301000 div 1000 - 1700000000\<bar> > (300 :: int)" by simp
  from verify_rejects_stale_timestamp [OF p d] p d show ?thesis by simp
qed

text \<open>
  The window is closed at 300 seconds: a timestamp that differs from the current time by at
  most 300 seconds is not rejected, and the digest decides.
\<close>

lemma verify_fresh_timestamp:
  "parseInt t = Some w \<Longrightarrow> \<bar>nowMs div 1000 - w\<bar> \<le> 300 \<Longrightarrow> truthy_payload p \<Longrightarrow> sec \<noteq> [] \<Longrightarrow>
   verifyWebhookSignature nowMs (Some p) (Some sg) (Some sec) (Some t)
     = Inr (sg = createHmac_sha256_hex sec (t @ ''.'' @ payload_toString p))"
  using parseInt_Nil
  by (auto simp: verify_present replay_rejected_def signaturePayload_def Let_def)

text \<open>
  Claim C3 says that every empty payload gives false. The guard tests truthiness, and a
  \<open>Buffer\<close> is an object, truthy also when it holds no byte: the empty \<open>Buffer\<close> passes the
  guard and verifies against the digest of the empty message.
\<close>

theorem empty_buffer_payload_verifies:
  "verifyWebhookSignature 1700000000000 (Some (Buf []))
     (Some (generateWebhookSignature (Buf []) ''secret'' None)) (Some ''secret'') None = Inr True"
  by (simp add: verify_present generateWebhookSignature_def)

text \<open>
  Claim C3, amended: \<open>verifyWebhookSignature\<close> returns false whenever the payload is absent
  or the empty string, or the candidate signature is absent or empty, or the secret is
  absent or empty, in every combination; and for all inputs it returns a boolean: it never
  throws.
\<close>

theorem verify_fails_closed:
  "(pl = None \<or> pl = Some (Str []) \<or> sg = None \<or> sg = Some [] \<or> sec = None \<or> sec = Some []
      \<longrightarrow> verifyWebhookSignature nowMs pl sg sec ts = Inr False) \<and>
   (\<exists>b. verifyWebhookSignature nowMs pl sg sec ts = Inr b)"
proof
  show "pl = None \<or> pl = Some (Str []) \<or> sg = None \<or> sg = Some [] \<or> sec = None \<or> sec = Some []
      \<longrightarrow> verifyWebhookSignature nowMs pl sg sec ts = Inr False"
    using createHmac_not_Nil not_sym [OF createHmac_not_Nil]
    by (cases pl; cases sg; cases sec) (auto simp: verify_present verify_absent)
  show "\<exists>b. verifyWebhookSignature nowMs pl sg sec ts = Inr b"
    by (cases "verifyWebhookSignature_try nowMs pl sg sec ts")
      (auto simp: verifyWebhookSignature_def)
qed

theorem verify_fails_closed_witness:
  "verifyWebhookSignature 1700000000000 (Some (Str [])) (Some ''abc'') (Some ''secret'') None = Inr False \<and>
   verifyWebhookSignature 1700000000000 None None None None = Inr False \<and>
   verifyWebhookSignature 1700000000000 (Some (Str ''{}'')) (Some []) (Some ''secret'') (Some ''1'') = Inr False \<and>
   verifyWebhookSignature 1700000000000 (Some (Buf ''{}'')) (Some ''abc'') (Some []) None = Inr False \<and>
   (\<exists>b. verifyWebhookSignature 1700000000000 (Some (Str ''{}'')) (Some ''abc'') (Some ''secret'') None = Inr b)"
  using verify_fails_closed [of "Some (Str [])" "Some ''abc''" "Some ''secret''" 1700000000000 None]
    verify_fails_closed [of None None None 1700000000000 None]
    verify_fails_closed [of "Some (Str ''{}'')" "Some []" "Some ''secret''" 1700000000000 "Some ''1''"]
    verify_fails_closed [of "Some (Buf ''{}'')" "Some ''abc''" "Some []" 1700000000000 None]
    verify_fails_closed [of "Some (Str ''{}'')" "Some ''abc''" "Some ''secret''" 1700000000000 None]
  by simp

text \<open>
  Claim C10 says that with a timestamp from which \<open>parseInt\<close> reads no number the result is
  solely whether the candidate equals the digest of timestamp, \<open>"."\<close> and payload. The
  truthiness guard on payload, signature and secret comes before the timestamp is looked at:
  with the empty string as payload, the candidate that equals that digest is rejected.
\<close>

theorem unparsable_timestamp_empty_payload_rejected:
  "parseInt ''not-a-time'' = None \<and>
   verifyWebhookSignature 1700000000000 (Some (Str []))
     (Some (createHmac_sha256_hex ''secret'' (''not-a-time'' @ ''.'' @ payload_toString (Str []))))
     (Some ''secret'') (Some ''not-a-time'')
     = Inr False"
  by (simp add: parseInt_eval verify_present)

text \<open>
  Claim C10, amended: a timestamp from which \<open>parseInt\<close> reads no number never triggers the
  replay rejection: the result is the same at every reading of the clock, whatever the other
  arguments are. When payload and secret pass the truthiness guard (the payload is a
  non-empty string or a \<open>Buffer\<close>, the secret is not empty) and such a timestamp is not the
  empty string, the result is exactly whether the candidate equals the digest of timestamp,
  \<open>"."\<close> and payload; when it is the empty string, the digest is that of the payload alone;
  and when payload or secret fails the guard, the result is \<open>false\<close>.
\<close>

theorem verify_unparsable_timestamp:
  "parseInt t = None \<Longrightarrow>
   verifyWebhookSignature nowMs' pl sg sec (Some t) = verifyWebhookSignature nowMs pl sg sec (Some t) \<and>
   (t \<noteq> [] \<and> truthy_payload p \<and> secret \<noteq> [] \<longrightarrow>
      verifyWebhookSignature nowMs (Some p) (Some candidate) (Some secret) (Some t)
        = Inr (candidate = createHmac_sha256_hex secret (t @ ''.'' @ payload_toString p))) \<and>
   (t = [] \<and> truthy_payload p \<and> secret \<noteq> [] \<longrightarrow>
      verifyWebhookSignature nowMs (Some p) (Some candidate) (Some secret) (Some t)
        = Inr (candidate = createHmac_sha256_hex secret (payload_toString p))) \<and>
   (\<not> truthy_payload p \<or> secret = [] \<longrightarrow>
      verifyWebhookSignature nowMs (Some p) (Some candidate) (Some secret) (Some t) = Inr False)"
  by (cases pl; cases sg; cases sec)
    (auto simp add: verify_present verify_absent replay_rejected_def signaturePayload_def)

theorem verify_unparsable_timestamp_witness:
  "parseInt ''not-a-time'' = None \<and> parseInt [] = None \<and>
   verifyWebhookSignature 1700000000000 (Some (Str ''{}''))
     (Some (createHmac_sha256_hex ''secret'' ''not-a-time.{}'')) (Some ''secret'') (Some ''not-a-time'')
     = Inr True \<and>
   verifyWebhookSignature 0 (Some (Str ''{}''))
     (Some (createHmac_sha256_hex ''secret'' ''not-a-time.{}'')) (Some ''secret'') (Some ''not-a-time'')
     = Inr True \<and>
   verifyWebhookSignature 1700000000000 (Some (Str ''{}''))
     (Some ''not-the-digest'') (Some ''secret'') (Some ''not-a-time'')
     = Inr False \<and>
   verifyWebhookSignature 1700000000000 (Some (Str ''{}''))
     (Some (createHmac_sha256_hex ''secret'' ''{}'')) (Some ''secret'') (Some [])
     = Inr True \<and>
   verifyWebhookSignature 1700000000000 (Some (Str ''{}''))
     (Some (createHmac_sha256_hex [] ''not-a-time.{}'')) (Some []) (Some ''not-a-time'')
     = Inr False"
proof -
  have p: "parseInt ''not-a-time'' = None" by (simp add: parseInt_eval)
  have "length ''not-the-digest'' \<noteq> 64" by simp
  then have n: "''not-the-digest'' \<noteq> createHmac_sha256_hex ''secret'' ''not-a-time.{}''"
    using length_createHmac [of "''secret''" "''not-a-time.{}''"] by metis
  let ?d = "createHmac_sha256_hex ''secret'' ''not-a-time.{}''"
  have 1: "verifyWebhookSignature 1700000000000 (Some (Str ''{}'')) (Some ?d) (Some ''secret'')
      (Some ''not-a-time'') = Inr True"
    using verify_unparsable_timestamp [OF p, where p = "Str ''{}''" and secret = "''secret''"
        and candidate = ?d and nowMs = 1700000000000]
    by simp
  have 2: "verifyWebhookSignature 0 (Some (Str ''{}'')) (Some ?d) (Some ''secret'')
      (Some ''not-a-time'') = Inr True"
    using verify_unparsable_timestamp [OF p, where nowMs' = 0 and nowMs = 1700000000000
        and pl = "Some (Str ''{}'')" and sg = "Some ?d" and sec = "Some ''secret''"] 1
    by simp
  have 3: "verifyWebhookSignature 1700000000000 (Some (Str ''{}'')) (Some ''not-the-digest'')
      (Some ''secret'') (Some ''not-a-time'') = Inr False"
    using verify_unparsable_timestamp [OF p, where p = "Str ''{}''" and secret = "''secret''"
        and candidate = "''not-the-digest''" and nowMs = 1700000000000] n
    by simp
  have 4: "verifyWebhookSignature 1700000000000 (Some (Str ''{}''))
      (Some (createHmac_sha256_hex ''secret'' ''{}'')) (Some ''secret'') (Some []) = Inr True"
    using verify_unparsable_timestamp [OF parseInt_Nil, where p = "Str ''{}''"
        and secret = "''secret''" and candidate = "createHmac_sha256_hex ''secret'' ''{}''"
        and nowMs = 1700000000000]
    by simp
  have 5: "verifyWebhookSignature 1700000000000 (Some (Str ''{}''))
      (Some (createHmac_sha256_hex [] ''not-a-time.{}'')) (Some []) (Some ''not-a-time'')
      = Inr False"
    using verify_unparsable_timestamp [OF p, where p = "Str ''{}''" and secret = "[]"
        and candidate = "createHmac_sha256_hex [] ''not-a-time.{}''" and nowMs = 1700000000000]
    by simp
  from p parseInt_Nil 1 2 3 4 5 show ?thesis by simp
qed

subsection \<open>Header extraction\<close>

lemma toLowerCase_header_names:
  "toLowerCase ''x-alloy-signature'' = ''x-alloy-signature''"
  "toLowerCase ''x-alloy-timestamp'' = ''x-alloy-timestamp''"
  by code_simp+

text \<open>
  Claim C4 says that a header present under any letter-casing of the name is found. The
  lookup reads \<open>headers[name]\<close> and \<open>headers[name.toLowerCase()]\<close>, and both names are
  lower-case constants: the keys of the map are never folded. A signature stored under
  \<open>X-Alloy-Signature\<close>, a casing of the name, is not found.
\<close>

theorem extract_misses_mixed_case_key:
  "toLowerCase ''X-Alloy-Signature'' = ALLOY_SIGNATURE_HEADER \<and>
   signature (extractSignatureFromHeaders [''X-Alloy-Signature'' \<mapsto> Single ''abc'']) = None"
proof -
  have "toLowerCase ''X-Alloy-Signature'' = ALLOY_SIGNATURE_HEADER" by code_simp
  moreover
  have "signature (extractSignatureFromHeaders [''X-Alloy-Signature'' \<mapsto> Single ''abc'']) = None"
    by (simp add: extractSignatureFromHeaders_def getHeader_def toLowerCase_header_names
        ALLOY_SIGNATURE_HEADER_def)
  ultimately show ?thesis by simp
qed

text \<open>
  Claim C4, amended: \<open>extractSignatureFromHeaders\<close> looks the two headers up under the
  lower-case keys \<open>x-alloy-signature\<close> and \<open>x-alloy-timestamp\<close> only. A string stored there
  is returned, a list gives its first entry, and an absent header, an empty string, an
  empty list or an empty first entry give null; no input raises an exception.
\<close>

theorem extract_reads_lower_case_keys:
  "signature (extractSignatureFromHeaders headers) =
     (case headers ''x-alloy-signature'' of
        None \<Rightarrow> None
      | Some (Single s) \<Rightarrow> if s = [] then None else Some s
      | Some (Multi xs) \<Rightarrow> (case xs of [] \<Rightarrow> None | x # _ \<Rightarrow> if x = [] then None else Some x)) \<and>
   timestamp (extractSignatureFromHeaders headers) =
     (case headers ''x-alloy-timestamp'' of
        None \<Rightarrow> None
      | Some (Single s) \<Rightarrow> if s = [] then None else Some s
      | Some (Multi xs) \<Rightarrow> (case xs of [] \<Rightarrow> None | x # _ \<Rightarrow> if x = [] then None else Some x))"
  by (simp add: extractSignatureFromHeaders_def getHeader_def toLowerCase_header_names Let_def
      ALLOY_SIGNATURE_HEADER_def ALLOY_TIMESTAMP_HEADER_def
      split: option.split header_value.split list.split)

theorem extract_reads_lower_case_keys_witness:
  "signature (extractSignatureFromHeaders
      [''x-alloy-signature'' \<mapsto> Multi [''abc'', ''def''],
       ''x-alloy-timestamp'' \<mapsto> Single ''1700000000'']) = Some ''abc'' \<and>
   timestamp (extractSignatureFromHeaders
      [''x-alloy-signature'' \<mapsto> Multi [''abc'', ''def''],
       ''x-alloy-timestamp'' \<mapsto> Single ''1700000000'']) = Some ''1700000000'' \<and>
   signature (extractSignatureFromHeaders Map.empty) = None \<and>
   timestamp (extractSignatureFromHeaders Map.empty) = None"
  using extract_reads_lower_case_keys [of "[''x-alloy-signature'' \<mapsto> Multi [''abc'', ''def''],
       ''x-alloy-timestamp'' \<mapsto> Single ''1700000000'']"]
    extract_reads_lower_case_keys [of Map.empty]
  by simp

section \<open>Properties of \<open>withRetry\<close>\<close>

text \<open>
  An \<open>Error\<close> object with status 429, as the response interceptor builds it, reads as 429;
  so does a plain object with that property.
\<close>

lemma read_statusCode_Exn:
  "read_statusCode (Exn e) = Inr (JNum 429) \<longleftrightarrow> statusCode e = Some 429"
  by (cases "statusCode e") simp_all

text \<open>One turn of the loop, by the outcome of the call.\<close>

lemma withRetry_loop_retry:
  "attempt < maxRetries \<Longrightarrow> fn s = (Inl x, s') \<Longrightarrow> read_statusCode x = Inr (JNum 429) \<Longrightarrow>
   withRetry_loop fn maxRetries d attempt lastError (s, tr) =
     withRetry_loop fn maxRetries d (attempt + 1) x
       (s', tr @ [Invoked, Slept (d * 2 ^ nat attempt)])"
  by (subst withRetry_loop.simps) simp

lemma withRetry_loop_throw:
  "attempt \<le> maxRetries \<Longrightarrow> fn s = (Inl x, s') \<Longrightarrow> read_statusCode x = Inr code \<Longrightarrow>
   \<not> (code = JNum 429 \<and> attempt < maxRetries) \<Longrightarrow>
   withRetry_loop fn maxRetries d attempt lastError (s, tr) = (Inl x, s', tr @ [Invoked])"
  by (subst withRetry_loop.simps) auto

lemma withRetry_loop_type_error:
  "attempt \<le> maxRetries \<Longrightarrow> fn s = (Inl x, s') \<Longrightarrow> read_statusCode x = Inl typeError \<Longrightarrow>
   withRetry_loop fn maxRetries d attempt lastError (s, tr) =
     (Inl (Exn typeError), s', tr @ [Invoked])"
  by (subst withRetry_loop.simps) simp

lemma withRetry_loop_return:
  "attempt \<le> maxRetries \<Longrightarrow> fn s = (Inr v, s') \<Longrightarrow>
   withRetry_loop fn maxRetries d attempt lastError (s, tr) = (Inr v, s', tr @ [Invoked])"
  by (subst withRetry_loop.simps) simp

text \<open>
  Claim C5: when every call of the operation raises an error with \<open>statusCode\<close> 429,
  \<open>withRetry\<close> with \<open>maxRetries = 3\<close> and initial delay \<open>d\<close> invokes the operation exactly four
  times, sleeps \<open>d\<close>, \<open>2d\<close> and \<open>4d\<close> between the attempts, and throws the error of the
  fourth call.
\<close>

theorem withRetry_rate_limited_four_attempts:
  assumes "\<forall>s. \<exists>x. fst (fn s) = Inl x \<and> read_statusCode x = Inr (JNum 429)"
  shows "\<exists>x. fst (fn (snd (fn (snd (fn (snd (fn s0))))))) = Inl x \<and>
     read_statusCode x = Inr (JNum 429) \<and>
     withRetry fn (Some 3) (Some d) (s0, tr) =
       (Inl x, snd (fn (snd (fn (snd (fn (snd (fn s0))))))),
        tr @ [Invoked, Slept d, Invoked, Slept (2 * d), Invoked, Slept (4 * d), Invoked])"
proof -
  define s1 where "s1 = snd (fn s0)"
  define s2 where "s2 = snd (fn s1)"
  define s3 where "s3 = snd (fn s2)"
  define s4 where "s4 = snd (fn s3)"
  from assms obtain x0 where x0: "fn s0 = (Inl x0, s1)" "read_statusCode x0 = Inr (JNum 429)"
    unfolding s1_def by (metis prod.collapse)
  from assms obtain x1 where x1: "fn s1 = (Inl x1, s2)" "read_statusCode x1 = Inr (JNum 429)"
    unfolding s2_def by (metis prod.collapse)
  from assms obtain x2 where x2: "fn s2 = (Inl x2, s3)" "read_statusCode x2 = Inr (JNum 429)"
    unfolding s3_def by (metis prod.collapse)
  from assms obtain x3 where x3: "fn s3 = (Inl x3, s4)" "read_statusCode x3 = Inr (JNum 429)"
    unfolding s4_def by (metis prod.collapse)
  have "withRetry fn (Some 3) (Some d) (s0, tr) = withRetry_loop fn 3 d 0 (Val JNull) (s0, tr)"
    by (simp add: withRetry_def)
  also have "\<dots> = withRetry_loop fn 3 d 1 x0 (s1, tr @ [Invoked, Slept d])"
    using withRetry_loop_retry [of 0 3 fn s0 x0 s1 d "Val JNull" tr] x0 by simp
  also have "\<dots> = withRetry_loop fn 3 d 2 x1 (s2, tr @ [Invoked, Slept d, Invoked, Slept (2 * d)])"
    using withRetry_loop_retry [of 1 3 fn s1 x1 s2 d x0 "tr @ [Invoked, Slept d]"] x1
    by (simp add: mult.commute)
  also have "\<dots> = withRetry_loop fn 3 d 3 x2
       (s3, tr @ [Invoked, Slept d, Invoked, Slept (2 * d), Invoked, Slept (4 * d)])"
    using withRetry_loop_retry [of 2 3 fn s2 x2 s3 d x1
        "tr @ [Invoked, Slept d, Invoked, Slept (2 * d)]"] x2 by (simp add: mult.commute)
  also have "\<dots> = (Inl x3, s4,
       tr @ [Invoked, Slept d, Invoked, Slept (2 * d), Invoked, Slept (4 * d), Invoked])"
    using withRetry_loop_throw [of 3 3 fn s3 x3 s4 "JNum 429" d x2
        "tr @ [Invoked, Slept d, Invoked, Slept (2 * d), Invoked, Slept (4 * d)]"] x3 by simp
  finally have "withRetry fn (Some 3) (Some d) (s0, tr) = (Inl x3, s4,
       tr @ [Invoked, Slept d, Invoked, Slept (2 * d), Invoked, Slept (4 * d), Invoked])" .
  moreover have "fst (fn s3) = Inl x3" using x3 by simp
  ultimately show ?thesis
    using x3(2) unfolding s4_def s3_def s2_def s1_def by blast
qed

theorem withRetry_rate_limited_four_attempts_witness:
  "withRetry always_rate_limited (Some 3) (Some 1000) (0, []) =
     (Inl (Exn (Error ''Alloy API Error [HTTP_429]: Unknown error'' (Some 429))), 4,
      [Invoked, Slept 1000, Invoked, Slept 2000, Invoked, Slept 4000, Invoked])"
proof -
  have f: "always_rate_limited n =
      (Inl (Exn (Error ''Alloy API Error [HTTP_429]: Unknown error'' (Some 429))), n + 1)" for n
    by (simp add: always_rate_limited_def)
  have h: "\<forall>s. \<exists>x. fst (always_rate_limited s) = Inl x \<and> read_statusCode x = Inr (JNum 429)"
    by (simp add: f)
  have s3: "snd (always_rate_limited (snd (always_rate_limited (snd (always_rate_limited 0))))) = 3"
    by (simp add: f)
  have s4: "snd (always_rate_limited 3) = 4"
    and x4: "fst (always_rate_limited 3) =
      Inl (Exn (Error ''Alloy API Error [HTTP_429]: Unknown error'' (Some 429)))"
    by (simp_all add: f)
  from withRetry_rate_limited_four_attempts [OF h, of 0 1000 "[]"]
  obtain x where "fst (always_rate_limited 3) = Inl x"
    and r: "withRetry always_rate_limited (Some 3) (Some 1000) (0, []) =
       (Inl x, snd (always_rate_limited 3),
        [] @ [Invoked, Slept 1000, Invoked, Slept (2 * 1000), Invoked, Slept (4 * 1000), Invoked])"
    unfolding s3 by blast
  with x4 have "x = Exn (Error ''Alloy API Error [HTTP_429]: Unknown error'' (Some 429))" by simp
  with r s4 show ?thesis by simp
qed

text \<open>
  Claim C6 says that every error without status 429 is rethrown unchanged. The \<open>catch\<close> block
  reads \<open>error.statusCode\<close> on whatever was thrown: when the operation rejects with \<open>null\<close>,
  which has no status 429, that read throws, and \<open>withRetry\<close> (after the one call, without
  sleeping) throws the \<open>TypeError\<close> in place of \<open>null\<close>.
\<close>

theorem withRetry_null_rejection_replaced:
  "fst (null_rejection 0) = Inl (Val JNull) \<and>
   withRetry null_rejection (Some 3) (Some 1000) (0, []) =
     (Inl (Exn (TypeError ''Cannot read properties of null (reading 'statusCode')'')), 1, [Invoked])"
proof -
  have f: "null_rejection 0 = (Inl (Val JNull), 1)"
    by (simp add: null_rejection_def)
  have "withRetry_loop null_rejection 3 1000 0 (Val JNull) (0, []) =
     (Inl (Exn (TypeError ''Cannot read properties of null (reading 'statusCode')'')), 1,
      [] @ [Invoked])"
    by (rule withRetry_loop_type_error [where fn = null_rejection and s = 0 and x = "Val JNull"])
      (simp_all add: f)
  with f show ?thesis by (simp add: withRetry_def)
qed

text \<open>
  Claim C6, amended: when a call of the operation raises a value other than \<open>null\<close> and
  \<open>undefined\<close> whose \<open>statusCode\<close> is not 429, \<open>withRetry\<close> (with \<open>maxRetries\<close> at least 0, or
  the default) has invoked the operation once, sleeps for nothing and throws that value
  unchanged; the same holds at any later attempt of the loop, so only errors with status
  429 are retried.
\<close>

theorem withRetry_other_error_not_retried:
  assumes "fn s = (Inl x, s')" and "read_statusCode x = Inr code" and "code \<noteq> JNum 429"
  shows "(0 \<le> maxRetries \<longrightarrow>
            withRetry fn (Some maxRetries) initialDelay (s, tr) = (Inl x, s', tr @ [Invoked])) \<and>
         withRetry fn None initialDelay (s, tr) = (Inl x, s', tr @ [Invoked]) \<and>
         (attempt \<le> maxRetries \<longrightarrow>
            withRetry_loop fn maxRetries d attempt lastError (s, tr) = (Inl x, s', tr @ [Invoked]))"
  using assms by (simp add: withRetry_def withRetry_loop_throw)

theorem withRetry_other_error_not_retried_witness:
  "withRetry server_error (Some 3) (Some 1000) (0, []) =
     (Inl (Exn (Error ''Alloy API Error [HTTP_500]: Unknown error'' (Some 500))), 1, [Invoked]) \<and>
   withRetry server_error None None (0, []) =
     (Inl (Exn (Error ''Alloy API Error [HTTP_500]: Unknown error'' (Some 500))), 1, [Invoked])"
proof -
  have f: "server_error 0 =
      (Inl (Exn (Error ''Alloy API Error [HTTP_500]: Unknown error'' (Some 500))), 1)"
    by (simp add: server_error_def)
  have n: "read_statusCode (Exn (Error ''Alloy API Error [HTTP_500]: Unknown error'' (Some 500)))
      = Inr (JNum 500)" "JNum 500 \<noteq> JNum 429"
    by simp_all
  from withRetry_other_error_not_retried [where fn = server_error and s = 0 and maxRetries = 3
      and initialDelay = "Some 1000" and tr = "[]", OF f n]
    withRetry_other_error_not_retried [where fn = server_error and s = 0 and maxRetries = 3
      and initialDelay = None and tr = "[]", OF f n]
  show ?thesis by simp
qed

section \<open>Properties of the paginated requests\<close>

lemma obj_get_obj_set: "obj_get (obj_set t k v) k' = (if k' = k then v else obj_get t k')"
  by (induction t k v rule: obj_set.induct) (auto simp: obj_get_def)

lemma obj_get_foldl_obj_set:
  "map_of kvs k = None \<Longrightarrow>
   obj_get (foldl (\<lambda>t (k, v). obj_set t k v) t kvs) k = obj_get t k"
proof (induction kvs arbitrary: t)
  case Nil
  then show ?case by simp
next
  case (Cons p kvs)
  obtain k' v' where p: "p = (k', v')" by (cases p)
  with Cons.prems have "k' \<noteq> k" "map_of kvs k = None" by (auto split: if_splits)
  with Cons.IH [of "obj_set t k' v'"] p show ?case by (simp add: obj_get_obj_set)
qed

lemma requested_page_limit:
  assumes "additionalParams = None \<or>
           (\<exists>kvs. additionalParams = Some kvs \<and> map_of kvs ''page'' = None \<and> map_of kvs ''limit'' = None)"
  shows "obj_get (request_params pagination additionalParams) ''page'' = number_or (params_page pagination) 1"
    and "obj_get (request_params pagination additionalParams) ''limit'' = number_or (params_limit pagination) 25"
  using assms
  by (auto simp: request_params_def obj_spread_def obj_get_foldl_obj_set) (simp_all add: obj_get_def)




subsection \<open>Listing all pages\<close>

lemma paged_client_request:
  assumes "map_of filters ''page'' = None" "map_of filters ''limit'' = None" "k \<noteq> 0"
  shows "alloyApiGetPaginated (paged_client srv) endpoint
           \<lparr> params_page = Some k, params_limit = Some 100,
             params_sort = None, params_order = None \<rparr> (Some filters) log =
         (Inr \<lparr> response_success = True, response_data = JArr (fst (srv k)),
                response_pagination =
                  \<lparr> pagination_page = JNum k, pagination_limit = JNum 100,
                    pagination_total = JNum 0, pagination_hasMore = JBool (snd (srv k)) \<rparr> \<rparr>,
          log @ [(endpoint, page_request filters k)])"
proof -
  have "obj_get (page_request filters k) ''page'' = JNum k"
    "obj_get (page_request filters k) ''limit'' = JNum 100"
    using assms by (simp_all add: requested_page_limit number_or_def)
  then show ?thesis
    by (simp add: alloyApiGetPaginated_def Let_def paged_client_def js_or_def obj_get_def)
qed

lemma returnAll_loop_stop:
  "returnAll_loop client endpoint filters k (JBool False) acc s = Some (Inr acc, s)"
  by (subst returnAll_loop.simps) simp

lemma returnAll_loop_paged:
  assumes "map_of filters ''page'' = None" "map_of filters ''limit'' = None"
    and "\<not> snd (srv n)"
  shows "1 \<le> k \<Longrightarrow> k \<le> n \<Longrightarrow> \<forall>j. k \<le> j \<and> j < n \<longrightarrow> snd (srv j) \<Longrightarrow>
     returnAll_loop (paged_client srv) endpoint filters k (JBool True) acc log =
       Some (Inr (acc @ concat (map (\<lambda>j. fst (srv j)) [k..n])),
             log @ map (\<lambda>j. (endpoint, page_request filters j)) [k..n])"
proof (induction "nat (n - k)" arbitrary: k acc log)
  case 0
  then have "k = n" by simp
  with assms 0 show ?case
    by (subst returnAll_loop.simps)
      (simp add: paged_client_request js_or_def returnAll_loop_stop)
next
  case (Suc m)
  then have lt: "k < n" and m: "m = nat (n - (k + 1))" by simp_all
  with Suc.prems have more: "snd (srv k)" by simp
  have up: "[k..n] = k # [k + 1..n]" using lt by (simp add: upto_rec1)
  have IH: "returnAll_loop (paged_client srv) endpoint filters (k + 1) (JBool True)
      (acc @ fst (srv k)) (log @ [(endpoint, page_request filters k)]) =
       Some (Inr ((acc @ fst (srv k)) @ concat (map (\<lambda>j. fst (srv j)) [k + 1..n])),
             (log @ [(endpoint, page_request filters k)]) @
               map (\<lambda>j. (endpoint, page_request filters j)) [k + 1..n])"
    using Suc.hyps(1) [OF m] Suc.prems lt by simp
  show ?case
    using assms Suc.prems more
    by (subst returnAll_loop.simps) (simp add: paged_client_request js_or_def IH up)
qed

text \<open>
  Claim C8: against a server of \<open>n\<close> pages that reports more pages on each page before the
  \<open>n\<close>-th and none on the \<open>n\<close>-th, and with filters that set neither \<open>page\<close> nor \<open>limit\<close>, the
  loop terminates, sends exactly the requests for the pages 1 to \<open>n\<close> in this order, each
  with \<open>limit\<close> 100, and returns the items of these pages in the same order. With three pages
  of 100 items it returns the 300 items in order after three requests.
\<close>

theorem returnAll_fetches_pages_in_order:
  assumes "map_of filters ''page'' = None" "map_of filters ''limit'' = None"
    and "1 \<le> n" and "\<forall>j. 1 \<le> j \<and> j < n \<longrightarrow> snd (srv j)" and "\<not> snd (srv n)"
  shows "\<exists>log. list_returnAll (paged_client srv) endpoint filters [] =
           Some (Inr (map (\<lambda>item. JObj [(''json'', item)]) (concat (map (\<lambda>j. fst (srv j)) [1..n]))), log) \<and>
         map fst log = map (\<lambda>j. endpoint) [1..n] \<and>
         map (\<lambda>(e, ps). (obj_get ps ''page'', obj_get ps ''limit'')) log =
           map (\<lambda>j. (JNum j, JNum 100)) [1..n]"
proof -
  have q: "obj_get (page_request filters j) ''page'' = JNum j"
    "obj_get (page_request filters j) ''limit'' = JNum 100" if "1 \<le> j" for j
    using assms(1,2) that by (simp_all add: requested_page_limit number_or_def)
  have "returnAll_loop (paged_client srv) endpoint filters 1 (JBool True) [] [] =
       Some (Inr ([] @ concat (map (\<lambda>j. fst (srv j)) [1..n])),
             [] @ map (\<lambda>j. (endpoint, page_request filters j)) [1..n])"
    using assms by (intro returnAll_loop_paged) simp_all
  then show ?thesis
    by (simp add: list_returnAll_def comp_def q cong: map_cong)
qed

theorem returnAll_fetches_pages_in_order_witness:
  "\<exists>log. list_returnAll (paged_client three_pages) ''/evaluations'' [(''outcome'', JStr ''approved'')] [] =
      Some (Inr (map (\<lambda>item. JObj [(''json'', item)]) (map JNum [1..300])), log) \<and>
     length (map (\<lambda>item. JObj [(''json'', item)]) (map JNum [1..300])) = 300 \<and>
     length log = 3 \<and>
     map (\<lambda>(e, ps). (obj_get ps ''page'', obj_get ps ''limit'')) log =
       [(JNum 1, JNum 100), (JNum 2, JNum 100), (JNum 3, JNum 100)]"
proof -
  have f: "map_of [(''outcome'', JStr ''approved'')] ''page'' = None"
    "map_of [(''outcome'', JStr ''approved'')] ''limit'' = None"
    by simp_all
  have m: "\<forall>j. 1 \<le> j \<and> j < 3 \<longrightarrow> snd (three_pages j)" "\<not> snd (three_pages 3)"
    by (simp_all add: three_pages_def)
  have u: "[1..3] = [1, 2, 3 :: int]" by (simp add: upto_rec1)
  have "[1..300] = [1..100] @ [101..200] @ [201..300 :: int]"
    using upto_split2 [of 1 100 300] upto_split2 [of 101 200 300] by simp
  then have c: "concat (map (\<lambda>j. fst (three_pages j)) [1..3]) = map JNum [1..300]"
    by (simp add: u three_pages_def)
  from returnAll_fetches_pages_in_order [where srv = three_pages and n = 3
      and endpoint = "''/evaluations''", OF f _ m]
  obtain log where
    "list_returnAll (paged_client three_pages) ''/evaluations'' [(''outcome'', JStr ''approved'')] [] =
      Some (Inr (map (\<lambda>item. JObj [(''json'', item)]) (map JNum [1..300])), log)"
    "map fst log = map (\<lambda>j. ''/evaluations'') [1..3]"
    "map (\<lambda>(e, ps). (obj_get ps ''page'', obj_get ps ''limit'')) log = map (\<lambda>j. (JNum j, JNum 100)) [1..3]"
    unfolding c by auto
  moreover from this(2) have "length (map fst log) = length (map (\<lambda>j. ''/evaluations'') [1, 2, 3 :: int])"
    unfolding u by (rule arg_cong)
  then have "length log = 3" by simp
  ultimately show ?thesis unfolding u by (intro exI [of _ log]) simp
qed

text \<open>
  The loop trusts the server: against a server that reports more pages on every page it
  never returns.
\<close>

lemma returnAll_loop_never_stops:
  assumes "map_of filters ''page'' = None" "map_of filters ''limit'' = None"
    and "\<forall>j. snd (srv j)" and "1 \<le> k"
  shows "returnAll_loop (paged_client srv) endpoint filters k (JBool True) acc log = None"
proof -
  have never: "c = paged_client srv \<and> f = filters \<and> 1 \<le> k \<and> h = JBool True \<longrightarrow> False"
    if "returnAll_loop c e f k h acc log = Some y" for c e f k h acc log y
  proof (rule returnAll_loop.raw_induct [where P = "\<lambda>c e f k h acc log y.
      c = paged_client srv \<and> f = filters \<and> 1 \<le> k \<and> h = JBool True \<longrightarrow> False", OF _ that])
    fix loop c e f k h acc log y
    assume IH: "\<And>c e f k h acc log y. loop c e f k h acc log = Some y \<Longrightarrow>
        c = paged_client srv \<and> f = filters \<and> 1 \<le> k \<and> h = JBool True \<longrightarrow> False"
      and step: "(if truthy h then
        (case alloyApiGetPaginated c e
                \<lparr> params_page = Some k, params_limit = Some 100,
                  params_sort = None, params_order = None \<rparr> (Some f) log of
           (Inl e, s') \<Rightarrow> Some (Inl e, s')
         | (Inr response, s') \<Rightarrow>
             (case (if truthy (response_data response)
                    then (case spread (response_data response) of
                            Inl e \<Rightarrow> Inl e | Inr items \<Rightarrow> Inr (acc @ items))
                    else Inr acc) of
                Inl e \<Rightarrow> Some (Inl e, s')
              | Inr allResults' \<Rightarrow>
                  loop c e f (k + 1)
                    (js_or (pagination_hasMore (response_pagination response)) (JBool False))
                    allResults' s'))
      else Some (Inr acc, log)) = Some y"
    show "c = paged_client srv \<and> f = filters \<and> 1 \<le> k \<and> h = JBool True \<longrightarrow> False"
    proof
      assume a: "c = paged_client srv \<and> f = filters \<and> 1 \<le> k \<and> h = JBool True"
      with step assms(1-3)
      have "loop (paged_client srv) e filters (k + 1) (JBool True) (acc @ fst (srv k))
              (log @ [(e, page_request filters k)]) = Some y"
        by (simp add: paged_client_request js_or_def)
      from IH [OF this] a show False by simp
    qed
  qed
  show ?thesis
  proof (cases "returnAll_loop (paged_client srv) endpoint filters k (JBool True) acc log")
    case None
    then show ?thesis .
  next
    case (Some y)
    from never [OF Some] assms(4) show ?thesis by simp
  qed
qed

section \<open>Properties of the webhook handler\<close>

lemma getHeader_not_empty: "getHeader h n \<noteq> Some []"
  by (auto simp: getHeader_def Let_def split: option.splits header_value.splits list.splits)

lemma signature_not_empty: "signature (extractSignatureFromHeaders h) \<noteq> Some []"
  by (simp add: extractSignatureFromHeaders_def getHeader_not_empty)

lemma validate_no_secret:
  "sec = None \<or> sec = Some [] \<Longrightarrow> validateAlloyWebhook ctx sec = validate_structure (bodyData ctx)"
  by (auto simp: validateAlloyWebhook_def)

lemma validate_missing_signature:
  "sec \<noteq> [] \<Longrightarrow> signature (extractSignatureFromHeaders (request_headers ctx)) = None \<Longrightarrow>
   validateAlloyWebhook ctx (Some sec) =
     \<lparr> isValid = False, error = Some ''Missing webhook signature header: x-alloy-signature'',
       payload = None \<rparr>"
  by (simp add: validateAlloyWebhook_def ALLOY_SIGNATURE_HEADER_def)

lemma validate_signature_present:
  "sec \<noteq> [] \<Longrightarrow> signature (extractSignatureFromHeaders (request_headers ctx)) = Some sg \<Longrightarrow>
   validateAlloyWebhook ctx (Some sec) =
     (if signature_check ctx sg sec \<noteq> Inr True
      then \<lparr> isValid = False, error = Some ''Invalid webhook signature'', payload = None \<rparr>
      else validate_structure (bodyData ctx))"
  using signature_not_empty [of "request_headers ctx"]
  by (auto simp: validateAlloyWebhook_def Let_def)

lemma validate_passed:
  assumes "s = None \<or> s = Some [] \<or>
     (\<exists>sec sg. s = Some sec \<and>
        signature (extractSignatureFromHeaders (request_headers ctx)) = Some sg \<and>
        signature_check ctx sg sec = Inr True)"
  shows "validateAlloyWebhook ctx s = validate_structure (bodyData ctx)"
proof (cases "s = None \<or> s = Some []")
  case True
  then show ?thesis by (rule validate_no_secret)
next
  case False
  with assms obtain sec sg where a: "s = Some sec" "sec \<noteq> []"
    "signature (extractSignatureFromHeaders (request_headers ctx)) = Some sg"
    "signature_check ctx sg sec = Inr True"
    by auto
  from validate_signature_present [OF a(2,3)] a(1,4) show ?thesis by simp
qed

text \<open>
  Claim C9: the handler answers 400 with \<open>{error: reason}\<close> when a secret is configured and
  the signature header is missing (the reason names \<open>x-alloy-signature\<close>), when the signature
  does not verify, and when the payload has no \<open>event_type\<close>; it answers 200 with
  \<open>{received: true, processed: false, reason: "Event type not in filter"}\<close> when the list of
  events is not empty and does not hold the event type; and 200 with
  \<open>{received: true, processed: true}\<close>, handing the event to the workflow, otherwise.
\<close>

theorem webhook_responses:
  "(handler_secret ctx = Some sec \<and> sec \<noteq> [] \<and>
      signature (extractSignatureFromHeaders (request_headers ctx)) = None
      \<longrightarrow> webhook ctx = rejected ''Missing webhook signature header: x-alloy-signature'') \<and>
   (handler_secret ctx = Some sec \<and> sec \<noteq> [] \<and>
      signature (extractSignatureFromHeaders (request_headers ctx)) = Some sg \<and>
      signature_check ctx sg sec \<noteq> Inr True
      \<longrightarrow> webhook ctx = rejected ''Invalid webhook signature'') \<and>
   (verification_passed ctx \<and> \<not> truthy (obj_get (bodyData ctx) ''event_type'')
      \<longrightarrow> webhook ctx = rejected ''Missing event_type in webhook payload'') \<and>
   (verification_passed ctx \<and> truthy (obj_get (bodyData ctx) ''event_type'') \<and>
      param_events ctx \<noteq> [] \<and>
      \<not> array_includes (param_events ctx) (obj_get (bodyData ctx) ''event_type'')
      \<longrightarrow> webhook ctx =
            Inr \<lparr> workflowData = None,
                  webhookResponse =
                    \<lparr> status = 200,
                      body = JObj [(''received'', JBool True), (''processed'', JBool False),
                                   (''reason'', JStr ''Event type not in filter'')] \<rparr> \<rparr>) \<and>
   (verification_passed ctx \<and> truthy (obj_get (bodyData ctx) ''event_type'') \<and>
      (param_events ctx = [] \<or>
       array_includes (param_events ctx) (obj_get (bodyData ctx) ''event_type''))
      \<longrightarrow> webhook ctx =
            Inr \<lparr> workflowData =
                    Some [if option_includeRawPayload ctx
                          then add_rawPayload (webhookPayloadToExecutionData (bodyData ctx)) (bodyData ctx)
                          else webhookPayloadToExecutionData (bodyData ctx)],
                  webhookResponse =
                    \<lparr> status = 200,
                      body = JObj [(''received'', JBool True), (''processed'', JBool True)] \<rparr> \<rparr>)"
proof (intro conjI impI)
  assume "handler_secret ctx = Some sec \<and> sec \<noteq> [] \<and>
      signature (extractSignatureFromHeaders (request_headers ctx)) = None"
  then show "webhook ctx = rejected ''Missing webhook signature header: x-alloy-signature''"
    by (simp add: webhook_def validate_missing_signature optional_string_def)
next
  assume "handler_secret ctx = Some sec \<and> sec \<noteq> [] \<and>
      signature (extractSignatureFromHeaders (request_headers ctx)) = Some sg \<and>
      signature_check ctx sg sec \<noteq> Inr True"
  then show "webhook ctx = rejected ''Invalid webhook signature''"
    by (simp add: webhook_def validate_signature_present optional_string_def)
next
  assume a: "verification_passed ctx \<and> \<not> truthy (obj_get (bodyData ctx) ''event_type'')"
  then have "validateAlloyWebhook ctx (handler_secret ctx) = validate_structure (bodyData ctx)"
    by (intro validate_passed) simp
  with a show "webhook ctx = rejected ''Missing event_type in webhook payload''"
    by (simp add: webhook_def validate_structure_def optional_string_def)
next
  assume a: "verification_passed ctx \<and> truthy (obj_get (bodyData ctx) ''event_type'') \<and>
      param_events ctx \<noteq> [] \<and>
      \<not> array_includes (param_events ctx) (obj_get (bodyData ctx) ''event_type'')"
  then have "validateAlloyWebhook ctx (handler_secret ctx) = validate_structure (bodyData ctx)"
    by (intro validate_passed) simp
  with a show "webhook ctx =
            Inr \<lparr> workflowData = None,
                  webhookResponse =
                    \<lparr> status = 200,
                      body = JObj [(''received'', JBool True), (''processed'', JBool False),
                                   (''reason'', JStr ''Event type not in filter'')] \<rparr> \<rparr>"
    by (simp add: webhook_def validate_structure_def)
next
  assume a: "verification_passed ctx \<and> truthy (obj_get (bodyData ctx) ''event_type'') \<and>
      (param_events ctx = [] \<or>
       array_includes (param_events ctx) (obj_get (bodyData ctx) ''event_type''))"
  then have "validateAlloyWebhook ctx (handler_secret ctx) = validate_structure (bodyData ctx)"
    by (intro validate_passed) simp
  with a show "webhook ctx =
            Inr \<lparr> workflowData =
                    Some [if option_includeRawPayload ctx
                          then add_rawPayload (webhookPayloadToExecutionData (bodyData ctx)) (bodyData ctx)
                          else webhookPayloadToExecutionData (bodyData ctx)],
                  webhookResponse =
                    \<lparr> status = 200,
                      body = JObj [(''received'', JBool True), (''processed'', JBool True)] \<rparr> \<rparr>"
    by (auto simp: webhook_def validate_structure_def Let_def)
qed


lemma stringify_obj_not_Nil: "stringify (JObj kvs) \<noteq> []"
  by simp

lemma signature_of_signed:
  "signature (extractSignatureFromHeaders (signed b)) =
     Some (generateWebhookSignature (Str (stringify (JObj b))) test_secret None)"
  "timestamp (extractSignatureFromHeaders (signed b)) = None"
  using createHmac_not_Nil
  by (simp_all add: extractSignatureFromHeaders_def getHeader_def toLowerCase_header_names signed_def
      ALLOY_SIGNATURE_HEADER_def ALLOY_TIMESTAMP_HEADER_def generateWebhookSignature_def)

lemma signed_delivery_passes:
  "signature_check (delivery (signed b) b evs)
     (generateWebhookSignature (Str (stringify (JObj b))) test_secret None) test_secret = Inr True"
  by (simp add: delivery_def signature_of_signed verify_present generateWebhookSignature_def
      test_secret_def)

theorem webhook_responses_witness:
  "webhook (delivery Map.empty completed_event []) =
     rejected ''Missing webhook signature header: x-alloy-signature'' \<and>
   webhook (delivery [''x-alloy-signature'' \<mapsto> Single ''invalid-signature''] completed_event []) =
     rejected ''Invalid webhook signature'' \<and>
   webhook (delivery (signed [(''data'', JObj [])]) [(''data'', JObj [])] []) =
     rejected ''Missing event_type in webhook payload'' \<and>
   webhook (delivery (signed completed_event) completed_event [''entity.created'']) =
     Inr \<lparr> workflowData = None,
           webhookResponse =
             \<lparr> status = 200,
               body = JObj [(''received'', JBool True), (''processed'', JBool False),
                            (''reason'', JStr ''Event type not in filter'')] \<rparr> \<rparr> \<and>
   webhook (delivery (signed completed_event) completed_event [''evaluation.completed'']) =
     Inr \<lparr> workflowData = Some [webhookPayloadToExecutionData completed_event],
           webhookResponse =
             \<lparr> status = 200,
               body = JObj [(''received'', JBool True), (''processed'', JBool True)] \<rparr> \<rparr>"
proof -
  have sec: "test_secret \<noteq> []" by (simp add: test_secret_def)
  have hs: "handler_secret (delivery h b evs) = Some test_secret" for h b evs
    by (simp add: delivery_def)
  have fld: "request_headers (delivery h b evs) = h" "bodyData (delivery h b evs) = b"
    "param_events (delivery h b evs) = evs" "\<not> option_includeRawPayload (delivery h b evs)" for h b evs
    by (simp_all add: delivery_def)
  have none: "signature (extractSignatureFromHeaders Map.empty) = None"
    by (simp add: extractSignatureFromHeaders_def getHeader_def)
  have inv: "signature (extractSignatureFromHeaders [''x-alloy-signature'' \<mapsto> Single ''invalid-signature''])
      = Some ''invalid-signature''"
    by (simp add: extractSignatureFromHeaders_def getHeader_def toLowerCase_header_names
        ALLOY_SIGNATURE_HEADER_def)
  have "length ''invalid-signature'' \<noteq> 64" by simp
  then have "''invalid-signature'' \<noteq> createHmac_sha256_hex k m" for k m
    using length_createHmac [of k m] by metis
  then have bad: "signature_check
      (delivery [''x-alloy-signature'' \<mapsto> Single ''invalid-signature''] completed_event [])
      ''invalid-signature'' test_secret \<noteq> Inr True"
    by (simp add: verify_present)
  have ev: "obj_get completed_event ''event_type'' = JStr ''evaluation.completed''"
    "obj_get [(''data'', JObj [])] ''event_type'' = JUndefined"
    by (simp_all add: obj_get_def completed_event_def)
  have c1: "webhook (delivery Map.empty completed_event []) =
     rejected ''Missing webhook signature header: x-alloy-signature''"
    using webhook_responses [where ctx = "delivery Map.empty completed_event []"
        and sec = test_secret] hs sec none
    by (simp only: fld) simp
  have c2: "webhook (delivery [''x-alloy-signature'' \<mapsto> Single ''invalid-signature''] completed_event []) =
     rejected ''Invalid webhook signature''"
    using webhook_responses [where ctx = "delivery [''x-alloy-signature'' \<mapsto> Single ''invalid-signature''] completed_event []"
        and sec = test_secret and sg = "''invalid-signature''"] hs sec inv bad
    by (simp only: fld) simp
  have pass: "verification_passed (delivery (signed b) b evs)" for b evs
    using hs [of "signed b" b evs] signature_of_signed(1) [of b] signed_delivery_passes [of b evs]
    by (simp only: fld) blast
  have c3: "webhook (delivery (signed [(''data'', JObj [])]) [(''data'', JObj [])] []) =
     rejected ''Missing event_type in webhook payload''"
    using webhook_responses [where ctx = "delivery (signed [(''data'', JObj [])]) [(''data'', JObj [])] []"]
      pass [of "[(''data'', JObj [])]" "[]"] ev
    by (simp only: fld) simp
  have c4: "webhook (delivery (signed completed_event) completed_event [''entity.created'']) =
     Inr \<lparr> workflowData = None,
           webhookResponse =
             \<lparr> status = 200,
               body = JObj [(''received'', JBool True), (''processed'', JBool False),
                            (''reason'', JStr ''Event type not in filter'')] \<rparr> \<rparr>"
    using webhook_responses [where ctx = "delivery (signed completed_event) completed_event [''entity.created'']"]
      pass [of completed_event "[''entity.created'']"] ev
    by (simp only: fld) (simp add: array_includes_def)
  have c5: "webhook (delivery (signed completed_event) completed_event [''evaluation.completed'']) =
     Inr \<lparr> workflowData = Some [webhookPayloadToExecutionData completed_event],
           webhookResponse =
             \<lparr> status = 200,
               body = JObj [(''received'', JBool True), (''processed'', JBool True)] \<rparr> \<rparr>"
    using webhook_responses [where ctx = "delivery (signed completed_event) completed_event [''evaluation.completed'']"]
      pass [of completed_event "[''evaluation.completed'']"] ev
    by (simp only: fld) (simp add: array_includes_def)
  from c1 c2 c3 c4 c5 show ?thesis by (intro conjI)
qed

end
